theory Spec2Isabelle
  imports Complex_Main "HOL-Library.AList" "HOL-Library.Sublist"
begin

section \<open>Conventions of the embedding\<close>

text \<open>
  The program is TypeScript. Its \<^verbatim>\<open>number\<close> values are modelled as follows:
  \<^item> measurements, scores and confidences are \<^typ>\<open>real\<close> (the IEEE rounding of the
    source is not modelled; where the source relies on what a division by zero yields,
    as in \<^verbatim>\<open>stdDev / mean || 0\<close>, the cases are written out);
  \<^item> timestamps (\<^verbatim>\<open>Date\<close>, read through \<^verbatim>\<open>getTime()\<close>), durations in milliseconds
    and counts are \<^typ>\<open>int\<close>;
  \<^item> strings are byte lists; the pictographs that open some messages are written as
    their UTF-8 bytes.
  A \<^verbatim>\<open>Map\<close> is an association list in insertion order (\<^const>\<open>AList.update\<close> is
  \<^verbatim>\<open>set\<close>, \<^const>\<open>AList.delete\<close> is \<^verbatim>\<open>delete\<close>, \<^const>\<open>map_of\<close> is \<^verbatim>\<open>get\<close>).
  What the source takes from its surroundings (the clock, \<^verbatim>\<open>Math.random\<close>, the file
  system, \<^verbatim>\<open>Number.prototype.toFixed\<close>) is an explicit argument of the model.
\<close>

section \<open>Metrics and analysis types\<close>

text \<open>\<^verbatim>\<open>MetricsSnapshot\<close>: the fields the analysis reads
  (\<^verbatim>\<open>system.cpu.usage\<close>, \<^verbatim>\<open>system.memory.percentage\<close>).\<close>

record MetricsSnapshot =
  snapshot_id :: string
  snapshot_timestamp :: int
  cpu_usage :: real
  memory_percentage :: real
  snapshot_configHash :: string

datatype ChangeType = Added | Modified | Removed

record ConfigChangeEvent =
  change_id :: string
  change_timestamp :: int
  change_configFile :: string
  changeType :: ChangeType
  change_parameter :: "string option"
  change_configHash :: string

record PerformanceBaseline =
  baseline_configHash :: string
  baseline_timestamp :: int
  baseline_avgCpu :: real
  baseline_avgMemory :: real
  baseline_maxCpu :: real
  baseline_maxMemory :: real
  baseline_sampleCount :: int
  baseline_stability :: real

record ImpactAnalysis =
  changeId :: string
  analysis_configFile :: string
  analysis_parameter :: "string option"
  impactScore :: real
  analysis_confidence :: real
  cpuDelta :: real
  memoryDelta :: real
  stabilityDelta :: real
  analysis_recommendation :: string
  evidence :: "string list"

record AnalysisConfig =
  minSampleSize :: int
  stabilityThreshold :: real
  significanceThreshold :: real
  analysisWindow :: int

text \<open>The fields of the \<^verbatim>\<open>ImpactAnalyzer\<close> class.\<close>

record ImpactAnalyzer =
  analyzer_config :: AnalysisConfig
  baselines :: "(string \<times> PerformanceBaseline) list"
  changeHistory :: "ConfigChangeEvent list"
  analysisResults :: "ImpactAnalysis list"

section \<open>Impact Analyzer\<close>

text \<open>\<^verbatim>\<open>average\<close>: \<^verbatim>\<open>numbers.reduce((a, b) => a + b, 0) / numbers.length\<close>. On the empty
  list the source yields NaN; every call below is on a list of at least two elements.\<close>

definition average :: "real list \<Rightarrow> real" where
  "average numbers = foldl (+) 0 numbers / real (length numbers)"

definition variance_of :: "real list \<Rightarrow> real \<Rightarrow> real" where
  "variance_of vals mean =
     foldl (\<lambda>acc val. acc + (val - mean) ^ 2) 0 vals / real (length vals)"

text \<open>\<^verbatim>\<open>ImpactAnalyzer.calculateStability\<close>.\<close>

definition calculateStability :: "real list \<Rightarrow> real" where
  "calculateStability vals =
     (if length vals < 2 then 1
      else
        let mean = average vals;
            variance = variance_of vals mean;
            stdDev = sqrt variance;
            coefficientOfVariation = (if mean > 0 then stdDev / mean else 0)
        in max 0 (1 - coefficientOfVariation))"

text \<open>\<^verbatim>\<open>calculateImpactScore\<close>: the three updates of \<^verbatim>\<open>score\<close>, then the clamp
  \<^verbatim>\<open>Math.max(-1, Math.min(1, score))\<close>.\<close>

definition calculateImpactScore :: "real \<Rightarrow> real \<Rightarrow> real \<Rightarrow> real" where
  "calculateImpactScore cpuD memoryD stabilityD =
     (let score0 = 0;
          score1 = score0 - (cpuD / 100) * 0.4;
          score2 = score1 - (memoryD / 100) * 0.3;
          score3 = score2 + stabilityD * 0.3
      in max (- 1) (min 1 score3))"

text \<open>The formula of the specification, section 4.2, in its own words.\<close>

definition clamp :: "real \<Rightarrow> real \<Rightarrow> real \<Rightarrow> real" where
  "clamp lo hi x = (if x < lo then lo else if hi < x then hi else x)"

definition spec_impactScore :: "real \<Rightarrow> real \<Rightarrow> real \<Rightarrow> real" where
  "spec_impactScore cpuD memoryD stabilityD =
     clamp (- 1) 1 (- 0.4 * cpuD / 100 - 0.3 * memoryD / 100 + 0.3 * stabilityD)"

definition calculateConfidence :: "int \<Rightarrow> int \<Rightarrow> real \<Rightarrow> real" where
  "calculateConfidence beforeSamples afterSamples impactMagnitude =
     (let minSamples = min beforeSamples afterSamples;
          sampleConfidence = min 1 (real_of_int minSamples / 10);
          magnitudeConfidence = min 1 (impactMagnitude * 10)
      in (sampleConfidence + magnitudeConfidence) / 2)"

text \<open>\<^verbatim>\<open>generateEvidence\<close>; \<open>toFixed x d\<close> stands for \<^verbatim>\<open>x.toFixed(d)\<close>.\<close>

definition generateEvidence ::
  "(real \<Rightarrow> nat \<Rightarrow> string) \<Rightarrow> AnalysisConfig \<Rightarrow> real \<Rightarrow> real \<Rightarrow> real \<Rightarrow> string list" where
  "generateEvidence toFixed cfg cpuD memoryD stabilityD =
     (let ev0 = [];
          ev1 = (if \<bar>cpuD\<bar> > significanceThreshold cfg * 100
                 then ev0 @ [''CPU usage '' @ (if cpuD > 0 then ''increased'' else ''decreased'')
                             @ '' by '' @ toFixed \<bar>cpuD\<bar> 2 @ ''%'']
                 else ev0);
          ev2 = (if \<bar>memoryD\<bar> > significanceThreshold cfg * 100
                 then ev1 @ [''Memory usage '' @ (if memoryD > 0 then ''increased'' else ''decreased'')
                             @ '' by '' @ toFixed \<bar>memoryD\<bar> 2 @ ''%'']
                 else ev1);
          ev3 = (if \<bar>stabilityD\<bar> > significanceThreshold cfg
                 then ev2 @ [''System stability '' @ (if stabilityD > 0 then ''improved'' else ''degraded'')
                             @ '' by '' @ toFixed \<bar>stabilityD * 100\<bar> 1 @ ''%'']
                 else ev2)
      in if length ev3 = 0 then ev3 @ [''No significant performance impact detected''] else ev3)"

text \<open>The pictographs that open the recommendation texts, as UTF-8 bytes
  (U+2705; U+26A0 U+FE0F; U+2139 U+FE0F; U+1F4CA).\<close>

definition check_mark :: string where
  "check_mark = [CHR 0xE2, CHR 0x9C, CHR 0x85]"

definition warning_sign :: string where
  "warning_sign = [CHR 0xE2, CHR 0x9A, CHR 0xA0, CHR 0xEF, CHR 0xB8, CHR 0x8F]"

definition information_sign :: string where
  "information_sign = [CHR 0xE2, CHR 0x84, CHR 0xB9, CHR 0xEF, CHR 0xB8, CHR 0x8F]"

definition bar_chart :: string where
  "bar_chart = [CHR 0xF0, CHR 0x9F, CHR 0x93, CHR 0x8A]"

definition generateRecommendation :: "real \<Rightarrow> string \<Rightarrow> string" where
  "generateRecommendation score file =
     (if score > 0.3 then
        check_mark @ '' Positive impact detected. Consider keeping this configuration change in ''
          @ file @ ''.''
      else if score < - 0.3 then
        warning_sign @ '' Negative impact detected. Consider reverting changes to '' @ file @ ''.''
      else if \<bar>score\<bar> < 0.1 then
        information_sign @ '' Minimal impact detected. Configuration change in '' @ file
          @ '' appears neutral.''
      else
        bar_chart @ '' Minor impact detected. Monitor '' @ file @ '' for additional changes.'')"

text \<open>\<^verbatim>\<open>analyzeChangeImpact\<close>, a method of the analyzer: \<open>this\<close> is the object it is
  called on; \<^verbatim>\<open>null\<close> is \<^const>\<open>None\<close>.\<close>

definition analyzeChangeImpact ::
  "(real \<Rightarrow> nat \<Rightarrow> string) \<Rightarrow> ImpactAnalyzer \<Rightarrow> ConfigChangeEvent \<Rightarrow> MetricsSnapshot list
     \<Rightarrow> ImpactAnalysis option" where
  "analyzeChangeImpact toFixed this change metricsHistory =
     (let beforeMetrics = filter (\<lambda>m.
            snapshot_timestamp m < change_timestamp change \<and>
            snapshot_timestamp m > change_timestamp change - analysisWindow (analyzer_config this))
            metricsHistory;
          afterMetrics = filter (\<lambda>m.
            snapshot_timestamp m > change_timestamp change \<and>
            snapshot_timestamp m < change_timestamp change + analysisWindow (analyzer_config this))
            metricsHistory
      in if length beforeMetrics < 3 \<or> length afterMetrics < 3 then None
         else
           let beforeAvgCpu = average (map cpu_usage beforeMetrics);
               afterAvgCpu = average (map cpu_usage afterMetrics);
               cpuD = afterAvgCpu - beforeAvgCpu;
               beforeAvgMemory = average (map memory_percentage beforeMetrics);
               afterAvgMemory = average (map memory_percentage afterMetrics);
               memoryD = afterAvgMemory - beforeAvgMemory;
               beforeStability = calculateStability (map cpu_usage beforeMetrics);
               afterStability = calculateStability (map cpu_usage afterMetrics);
               stabilityD = afterStability - beforeStability;
               score = calculateImpactScore cpuD memoryD stabilityD;
               conf = calculateConfidence (int (length beforeMetrics)) (int (length afterMetrics))
                        \<bar>score\<bar>;
               ev = generateEvidence toFixed (analyzer_config this) cpuD memoryD stabilityD;
               recommendation = generateRecommendation score (change_configFile change)
           in Some \<lparr> changeId = change_id change,
                     analysis_configFile = change_configFile change,
                     analysis_parameter = change_parameter change,
                     impactScore = score,
                     analysis_confidence = conf,
                     cpuDelta = cpuD,
                     memoryDelta = memoryD,
                     stabilityDelta = stabilityD,
                     analysis_recommendation = recommendation,
                     evidence = ev \<rparr>)"

section \<open>Optimization Engine\<close>

datatype OptimizationPriority = LOW | MEDIUM | HIGH | CRITICAL

datatype OptimizationCategory = PERFORMANCE | MEMORY | STABILITY | SECURITY | RESOURCE

text \<open>\<^verbatim>\<open>OptimizationSuggestion\<close>. The values of type \<^verbatim>\<open>any\<close> are strings here; the three
  optional fields of \<^verbatim>\<open>estimatedGain\<close> are flattened.\<close>

record OptimizationSuggestion =
  suggestion_id :: string
  suggestion_timestamp :: int
  priority :: OptimizationPriority
  category :: OptimizationCategory
  configFile :: string
  parameter :: string
  currentValue :: string
  suggestedValue :: string
  expectedImpact :: string
  reasoning :: "string list"
  confidence :: real
  estimatedGain_cpu :: "real option"
  estimatedGain_memory :: "real option"
  estimatedGain_stability :: "real option"
  riskLevel :: string
  rollbackPlan :: string

text \<open>Of \<^verbatim>\<open>ConfigFile\<close> no pass reads a field; its path and name are kept.\<close>

record ConfigFile =
  file_path :: string
  file_name :: string

text \<open>The field of the \<^verbatim>\<open>OptimizationEngine\<close> class that \<^verbatim>\<open>generateSuggestions\<close> writes.\<close>

record OptimizationEngine =
  suggestions :: "OptimizationSuggestion list"

text \<open>What \<^verbatim>\<open>calculateLatestMetrics\<close> returns; the passes of \<^verbatim>\<open>generateSuggestions\<close> read
  \<^verbatim>\<open>cpuUsage\<close> and \<^verbatim>\<open>memoryUsage\<close> only, \<^verbatim>\<open>stabilityScore\<close> is left out.\<close>

record LatestMetrics =
  cpuUsage :: real
  memoryUsage :: real

definition calculateLatestMetrics :: "MetricsSnapshot list \<Rightarrow> LatestMetrics" where
  "calculateLatestMetrics metricsHistory =
     (if length metricsHistory = 0 then \<lparr> cpuUsage = 0, memoryUsage = 0 \<rparr>
      else
        let recent = drop (length metricsHistory - 5) metricsHistory;
            avgCpu = foldl (\<lambda>sum m. sum + cpu_usage m) 0 recent / real (length recent);
            avgMemory = foldl (\<lambda>sum m. sum + memory_percentage m) 0 recent / real (length recent)
        in \<lparr> cpuUsage = avgCpu, memoryUsage = avgMemory \<rparr>)"

text \<open>Every new suggestion takes an identifier from \<^verbatim>\<open>generateSuggestionId()\<close> (clock and
  \<^verbatim>\<open>Math.random\<close>) and a date from \<^verbatim>\<open>new Date()\<close>: \<open>stamp k\<close> is the pair that the
  \<open>k\<close>-th suggestion created in a call receives.\<close>

type_synonym stamps = "nat \<Rightarrow> string \<times> int"

definition analyzePoorPerformance ::
  "(real \<Rightarrow> nat \<Rightarrow> string) \<Rightarrow> stamps \<Rightarrow> nat \<Rightarrow> ImpactAnalysis list \<Rightarrow> OptimizationSuggestion list" where
  "analyzePoorPerformance toFixed stamp k analyses =
     (let poorPerformers = filter (\<lambda>a. impactScore a < - 0.3) analyses
      in map (\<lambda>(i, analysis).
           \<lparr> suggestion_id = fst (stamp i),
             suggestion_timestamp = snd (stamp i),
             priority = HIGH,
             category = PERFORMANCE,
             configFile = analysis_configFile analysis,
             parameter = (case analysis_parameter analysis of
                            None \<Rightarrow> ''unknown''
                          | Some p \<Rightarrow> if p = [] then ''unknown'' else p),
             currentValue = ''current_config'',
             suggestedValue = ''optimized_config'',
             expectedImpact = ''Improve performance by ''
               @ toFixed \<bar>impactScore analysis * 100\<bar> 1 @ ''%'',
             reasoning =
               [''Configuration change caused '' @ toFixed \<bar>impactScore analysis * 100\<bar> 1
                  @ ''% performance degradation'',
                ''CPU impact: '' @ toFixed (cpuDelta analysis) 2 @ ''%'',
                ''Memory impact: '' @ toFixed (memoryDelta analysis) 2 @ ''%'',
                ''Consider reverting or adjusting this configuration''],
             confidence = analysis_confidence analysis,
             estimatedGain_cpu = Some \<bar>cpuDelta analysis\<bar>,
             estimatedGain_memory = Some \<bar>memoryDelta analysis\<bar>,
             estimatedGain_stability = Some \<bar>stabilityDelta analysis\<bar>,
             riskLevel = ''low'',
             rollbackPlan = ''Revert changes to '' @ analysis_configFile analysis \<rparr>)
           (enumerate k poorPerformers))"

definition identifyResourceOptimizations ::
  "(real \<Rightarrow> nat \<Rightarrow> string) \<Rightarrow> stamps \<Rightarrow> nat \<Rightarrow> LatestMetrics \<Rightarrow> ConfigFile list
     \<Rightarrow> OptimizationSuggestion list" where
  "identifyResourceOptimizations toFixed stamp k latestMetrics configFiles =
     (let s0 = [];
          s1 = (if memoryUsage latestMetrics > 85 then
                  s0 @ [\<lparr> suggestion_id = fst (stamp (k + length s0)),
                          suggestion_timestamp = snd (stamp (k + length s0)),
                          priority = HIGH,
                          category = MEMORY,
                          configFile = ''system'',
                          parameter = ''memory_management'',
                          currentValue = toFixed (memoryUsage latestMetrics) 1 @ ''%'',
                          suggestedValue = ''optimized_memory_settings'',
                          expectedImpact = ''Reduce memory usage by 10-20%'',
                          reasoning =
                            [''Current memory usage is '' @ toFixed (memoryUsage latestMetrics) 1
                               @ ''% (high)'',
                             ''Consider optimizing cache sizes, connection pools, or buffer limits'',
                             ''Review memory-intensive configuration parameters''],
                          confidence = 0.8,
                          estimatedGain_cpu = None,
                          estimatedGain_memory = Some 15,
                          estimatedGain_stability = None,
                          riskLevel = ''medium'',
                          rollbackPlan = ''Increase limits if performance degrades'' \<rparr>]
                else s0);
          s2 = (if cpuUsage latestMetrics > 70 then
                  s1 @ [\<lparr> suggestion_id = fst (stamp (k + length s1)),
                          suggestion_timestamp = snd (stamp (k + length s1)),
                          priority = MEDIUM,
                          category = PERFORMANCE,
                          configFile = ''system'',
                          parameter = ''cpu_optimization'',
                          currentValue = toFixed (cpuUsage latestMetrics) 1 @ ''%'',
                          suggestedValue = ''optimized_cpu_settings'',
                          expectedImpact = ''Reduce CPU usage by 5-15%'',
                          reasoning =
                            [''Current CPU usage is '' @ toFixed (cpuUsage latestMetrics) 1
                               @ ''% (high)'',
                             ''Consider optimizing worker processes, threading, or async operations'',
                             ''Review CPU-intensive configuration parameters''],
                          confidence = 0.7,
                          estimatedGain_cpu = Some 10,
                          estimatedGain_memory = None,
                          estimatedGain_stability = None,
                          riskLevel = ''medium'',
                          rollbackPlan = ''Revert to previous CPU settings'' \<rparr>]
                else s1)
      in s2)"

definition detectStabilityIssues ::
  "(real \<Rightarrow> nat \<Rightarrow> string) \<Rightarrow> stamps \<Rightarrow> nat \<Rightarrow> PerformanceBaseline list \<Rightarrow> MetricsSnapshot list
     \<Rightarrow> OptimizationSuggestion list" where
  "detectStabilityIssues toFixed stamp k bases metricsHistory =
     (let unstableBaselines = filter (\<lambda>b. baseline_stability b < 0.7) bases
      in map (\<lambda>(i, baseline).
           \<lparr> suggestion_id = fst (stamp i),
             suggestion_timestamp = snd (stamp i),
             priority = MEDIUM,
             category = STABILITY,
             configFile = ''configuration'',
             parameter = ''stability_optimization'',
             currentValue = toFixed (baseline_stability baseline * 100) 1 @ ''%'',
             suggestedValue = ''stabilized_configuration'',
             expectedImpact = ''Improve stability by ''
               @ toFixed ((0.9 - baseline_stability baseline) * 100) 1 @ ''%'',
             reasoning =
               [''Current stability score is '' @ toFixed (baseline_stability baseline * 100) 1
                  @ ''% (low)'',
                ''Consider adjusting timeout values, retry policies, or resource limits'',
                ''Increase buffer sizes or connection pool stability''],
             confidence = 0.6,
             estimatedGain_cpu = None,
             estimatedGain_memory = None,
             estimatedGain_stability = Some (0.9 - baseline_stability baseline),
             riskLevel = ''low'',
             rollbackPlan = ''Revert stability adjustments if issues occur'' \<rparr>)
           (enumerate k unstableBaselines))"

definition applyAlgorithmicOptimizations ::
  "(real \<Rightarrow> nat \<Rightarrow> string) \<Rightarrow> stamps \<Rightarrow> nat \<Rightarrow> ConfigFile list \<Rightarrow> LatestMetrics
     \<Rightarrow> OptimizationSuggestion list" where
  "applyAlgorithmicOptimizations toFixed stamp k configFiles latestMetrics =
     (let goldenRatio = 1.618;
          optimalMemoryRatio = 0.8
      in if memoryUsage latestMetrics > optimalMemoryRatio * 100 then
           let reductionNeeded = memoryUsage latestMetrics - optimalMemoryRatio * 100;
               suggestedReduction = real_of_int \<lceil>reductionNeeded / goldenRatio\<rceil>
           in [\<lparr> suggestion_id = fst (stamp k),
                  suggestion_timestamp = snd (stamp k),
                  priority = MEDIUM,
                  category = RESOURCE,
                  configFile = ''algorithmic_optimization'',
                  parameter = ''memory_ratio_optimization'',
                  currentValue = toFixed (memoryUsage latestMetrics) 1 @ ''%'',
                  suggestedValue =
                    toFixed (memoryUsage latestMetrics - suggestedReduction) 1 @ ''%'',
                  expectedImpact = ''Reduce memory usage by '' @ toFixed suggestedReduction 1
                    @ ''% using golden ratio optimization'',
                  reasoning =
                    [''Applied golden ratio mathematical optimization'',
                     ''Target optimal memory usage: '' @ toFixed (optimalMemoryRatio * 100) 1 @ ''%'',
                     ''Calculated reduction using mathematical algorithms''],
                  confidence = 0.75,
                  estimatedGain_cpu = None,
                  estimatedGain_memory = Some suggestedReduction,
                  estimatedGain_stability = None,
                  riskLevel = ''low'',
                  rollbackPlan = ''Mathematical rollback using inverse golden ratio'' \<rparr>]
         else [])"

text \<open>\<^verbatim>\<open>Array.prototype.findIndex\<close>: the first index at which the predicate holds,
  \<open>-1\<close> when there is none.\<close>

fun findIndex :: "('a \<Rightarrow> bool) \<Rightarrow> 'a list \<Rightarrow> int" where
  "findIndex P [] = - 1"
| "findIndex P (x # xs) =
     (if P x then 0 else (let i = findIndex P xs in if i < 0 then - 1 else i + 1))"

text \<open>\<^verbatim>\<open>Array.prototype.sort\<close> with a comparator is a stable sort (ECMAScript 2019): with a
  consistent comparator its result is the one stable arrangement, which insertion from
  the right end computes. \<open>cmp a b \<le> 0\<close> keeps \<open>a\<close> before \<open>b\<close>.\<close>

fun insort_cmp :: "('a \<Rightarrow> 'a \<Rightarrow> real) \<Rightarrow> 'a \<Rightarrow> 'a list \<Rightarrow> 'a list" where
  "insort_cmp cmp x [] = [x]"
| "insort_cmp cmp x (y # ys) =
     (if cmp x y \<le> 0 then x # y # ys else y # insort_cmp cmp x ys)"

definition js_sort :: "('a \<Rightarrow> 'a \<Rightarrow> real) \<Rightarrow> 'a list \<Rightarrow> 'a list" where
  "js_sort cmp xs = foldr (insort_cmp cmp) xs []"

definition priorityOrder :: "OptimizationPriority \<Rightarrow> int" where
  "priorityOrder p = (case p of CRITICAL \<Rightarrow> 4 | HIGH \<Rightarrow> 3 | MEDIUM \<Rightarrow> 2 | LOW \<Rightarrow> 1)"

text \<open>The comparator handed to \<^verbatim>\<open>sort\<close>.\<close>

definition compareSuggestions :: "OptimizationSuggestion \<Rightarrow> OptimizationSuggestion \<Rightarrow> real" where
  "compareSuggestions a b =
     (let aPriority = priorityOrder (priority a);
          bPriority = priorityOrder (priority b)
      in if aPriority \<noteq> bPriority then real_of_int (bPriority - aPriority)
         else confidence b - confidence a)"

text \<open>The predicate handed to \<^verbatim>\<open>findIndex\<close>.\<close>

definition sameTarget :: "OptimizationSuggestion \<Rightarrow> OptimizationSuggestion \<Rightarrow> bool" where
  "sameTarget suggestion s =
     (configFile s = configFile suggestion \<and> parameter s = parameter suggestion)"

text \<open>The first statement of \<^verbatim>\<open>filterAndPrioritizeSuggestions\<close>:
  \<^verbatim>\<open>suggestions.filter((suggestion, index, self) => index === self.findIndex(...))\<close>.\<close>

definition uniqueSuggestions :: "OptimizationSuggestion list \<Rightarrow> OptimizationSuggestion list" where
  "uniqueSuggestions self =
     map snd (filter (\<lambda>(index, suggestion). int index = findIndex (sameTarget suggestion) self)
                (enumerate 0 self))"

definition filterAndPrioritizeSuggestions ::
  "OptimizationSuggestion list \<Rightarrow> OptimizationSuggestion list" where
  "filterAndPrioritizeSuggestions newSuggestions =
     js_sort compareSuggestions (uniqueSuggestions newSuggestions)"

text \<open>\<^verbatim>\<open>generateSuggestions\<close>: the four passes in order, each appended to
  \<^verbatim>\<open>newSuggestions\<close>; the result is the returned list and the engine with the list
  appended to \<^verbatim>\<open>this.suggestions\<close>.\<close>

definition newSuggestionsOf ::
  "(real \<Rightarrow> nat \<Rightarrow> string) \<Rightarrow> stamps \<Rightarrow> ImpactAnalysis list \<Rightarrow> PerformanceBaseline list
     \<Rightarrow> ConfigFile list \<Rightarrow> MetricsSnapshot list \<Rightarrow> OptimizationSuggestion list" where
  "newSuggestionsOf toFixed stamp analyses bases configFiles metricsHistory =
     (let latestMetrics = calculateLatestMetrics metricsHistory;
          n1 = analyzePoorPerformance toFixed stamp 0 analyses;
          n2 = n1 @ identifyResourceOptimizations toFixed stamp (length n1) latestMetrics configFiles;
          n3 = n2 @ detectStabilityIssues toFixed stamp (length n2) bases metricsHistory;
          n4 = n3 @ applyAlgorithmicOptimizations toFixed stamp (length n3) configFiles latestMetrics
      in n4)"

definition generateSuggestions ::
  "(real \<Rightarrow> nat \<Rightarrow> string) \<Rightarrow> stamps \<Rightarrow> OptimizationEngine \<Rightarrow> ImpactAnalysis list
     \<Rightarrow> PerformanceBaseline list \<Rightarrow> ConfigFile list \<Rightarrow> MetricsSnapshot list
     \<Rightarrow> OptimizationSuggestion list \<times> OptimizationEngine" where
  "generateSuggestions toFixed stamp this analyses bases configFiles metricsHistory =
     (let newSuggestions = newSuggestionsOf toFixed stamp analyses bases configFiles metricsHistory;
          filteredSuggestions = filterAndPrioritizeSuggestions newSuggestions
      in (filteredSuggestions,
          this \<lparr> suggestions := suggestions this @ filteredSuggestions \<rparr>))"

text \<open>The order of the specification, section 4.3, in its own words: critical over high
  over medium over low, and within one priority the higher confidence first. Neither
  definition refers to the rank table or the comparator of the code.\<close>

fun outranks :: "OptimizationPriority \<Rightarrow> OptimizationPriority \<Rightarrow> bool" where
  "outranks CRITICAL HIGH = True"
| "outranks CRITICAL MEDIUM = True"
| "outranks CRITICAL LOW = True"
| "outranks HIGH MEDIUM = True"
| "outranks HIGH LOW = True"
| "outranks MEDIUM LOW = True"
| "outranks p q = False"

definition ranksBefore :: "OptimizationSuggestion \<Rightarrow> OptimizationSuggestion \<Rightarrow> bool" where
  "ranksBefore a b =
     (outranks (priority a) (priority b)
      \<or> (priority a = priority b \<and> confidence a \<ge> confidence b))"

section \<open>Auto-Tuning Engine: types\<close>

datatype TuningStatus = PENDING | TESTING | SUCCESSFUL | FAILED | ROLLED_BACK | AWAITING_APPROVAL

text \<open>The type \<^verbatim>\<open>"low" | "medium" | "high"\<close> of \<^verbatim>\<open>riskThreshold\<close>.\<close>

datatype RiskThreshold = RiskLow | RiskMedium | RiskHigh

record AutoTuningConfig =
  enabled :: bool
  safetyMode :: bool
  maxConcurrentChanges :: int
  rollbackTimeout :: int
  approvalRequired :: bool
  riskThreshold :: RiskThreshold
  testDuration :: int
  backupRetention :: int

record ConfigBackup =
  backup_id :: string
  backup_timestamp :: int
  backup_configFile :: string
  originalContent :: string
  backup_reason :: string

text \<open>The object \<^verbatim>\<open>{ avgCpu, avgMemory, stability }\<close> of \<^verbatim>\<open>calculateMetricsAverage\<close>.\<close>

record MetricsSummary =
  avgCpu :: real
  avgMemory :: real
  stability :: real

record AutoTuningSession =
  session_id :: string
  startTime :: int
  endTime :: "int option"
  suggestionId :: string
  session_configFile :: string
  session_parameter :: string
  originalValue :: string
  newValue :: string
  status :: TuningStatus
  preChangeMetrics :: "MetricsSummary option"
  postChangeMetrics :: "MetricsSummary option"
  improvementMeasured :: "real option"
  rollbackReason :: "string option"

datatype Recommendation = Keep | Rollback | ContinueTesting

record ValidationResult =
  isValid :: bool
  validation_confidence :: real
  improvementPercent :: real
  issues :: "string list"
  recommendation :: Recommendation

text \<open>The fields of the \<^verbatim>\<open>AutoTuningEngine\<close> class.\<close>

record AutoTuningEngine =
  engine_config :: AutoTuningConfig
  activeSessions :: "(string \<times> AutoTuningSession) list"
  backups :: "ConfigBackup list"
  completedSessions :: "AutoTuningSession list"
  backupDir :: string

record TuningStats =
  totalSessions :: int
  successful :: int
  rolledBack :: int
  successRate :: real
  avgImprovement :: real

section \<open>The surroundings of the Auto-Tuning Engine\<close>

text \<open>The file system as the engine uses it: the content of every file that exists, and
  the paths on which a write fails (no permission, a directory in the way). The engine
  and everything outside it share this state.\<close>

record FileSystem =
  files :: "(string \<times> string) list"
  unwritable :: "string list"

datatype error = ENOENT | EACCES | TypeError

definition existsSync :: "FileSystem \<Rightarrow> string \<Rightarrow> bool" where
  "existsSync fs p = (map_of (files fs) p \<noteq> None)"

text \<open>\<^verbatim>\<open>fs.accessSync(p, fs.constants.W_OK)\<close> returns \<^verbatim>\<open>undefined\<close> or throws.\<close>

definition accessSync_W_OK :: "FileSystem \<Rightarrow> string \<Rightarrow> error + unit" where
  "accessSync_W_OK fs p =
     (if map_of (files fs) p = None then Inl ENOENT
      else if p \<in> set (unwritable fs) then Inl EACCES
      else Inr ())"

definition readFile :: "FileSystem \<Rightarrow> string \<Rightarrow> error + string" where
  "readFile fs p = (case map_of (files fs) p of None \<Rightarrow> Inl ENOENT | Some c \<Rightarrow> Inr c)"

definition writeFile :: "FileSystem \<Rightarrow> string \<Rightarrow> string \<Rightarrow> error + FileSystem" where
  "writeFile fs p c =
     (if p \<in> set (unwritable fs) then Inl EACCES
      else Inr (fs \<lparr> files := AList.update p c (files fs) \<rparr>))"

text \<open>\<^verbatim>\<open>fs.remove\<close> (of fs-extra) succeeds on a path that does not exist.\<close>

definition remove_file :: "FileSystem \<Rightarrow> string \<Rightarrow> error + FileSystem" where
  "remove_file fs p =
     (if p \<in> set (unwritable fs) \<and> map_of (files fs) p \<noteq> None then Inl EACCES
      else Inr (fs \<lparr> files := AList.delete p (files fs) \<rparr>))"

text \<open>The JSON library: \<open>stringifyBackup b\<close> is \<^verbatim>\<open>JSON.stringify(backup, null, 2)\<close>;
  \<open>setJsonPath content parameter value\<close> is \<^verbatim>\<open>JSON.parse\<close> of the content, the walk of
  \<^verbatim>\<open>applyConfigurationChange\<close> along the dotted parameter path with the assignment of
  the value, and \<^verbatim>\<open>JSON.stringify(config, null, 2)\<close> of the outcome, \<^const>\<open>None\<close> when
  one of them throws.\<close>

record JsonOps =
  stringifyBackup :: "ConfigBackup \<Rightarrow> string"
  setJsonPath :: "string \<Rightarrow> string \<Rightarrow> string \<Rightarrow> string option"

text \<open>What one call of \<^verbatim>\<open>applySuggestion\<close> draws from the clock and \<^verbatim>\<open>Math.random\<close>:
  \<^verbatim>\<open>generateSessionId()\<close>, \<^verbatim>\<open>generateBackupId()\<close> and the two \<^verbatim>\<open>new Date()\<close>.\<close>

record ApplyStamp =
  new_sessionId :: string
  new_backupId :: string
  backup_date :: int
  start_date :: int

section \<open>Auto-Tuning Engine: operations\<close>

text \<open>The constructor: the configuration is the defaults overridden by the argument,
  the collections are empty (\<open>cwd\<close> is \<^verbatim>\<open>process.cwd()\<close>).\<close>

definition defaultConfig :: AutoTuningConfig where
  "defaultConfig =
     \<lparr> enabled = True, safetyMode = True, maxConcurrentChanges = 1,
       rollbackTimeout = 5 * 60 * 1000, approvalRequired = False, riskThreshold = RiskLow,
       testDuration = 2 * 60 * 1000, backupRetention = 7 \<rparr>"

definition newEngine :: "AutoTuningConfig \<Rightarrow> string \<Rightarrow> AutoTuningEngine" where
  "newEngine cfg cwd =
     \<lparr> engine_config = cfg, activeSessions = [], backups = [], completedSessions = [],
       backupDir = cwd @ ''/.configflow/backups'' \<rparr>"

text \<open>\<^verbatim>\<open>isWithinRiskThreshold\<close>: \<^verbatim>\<open>riskOrder[riskLevel] || 3\<close> for the suggestion, whose
  risk level arrives as a string; a string other than the three keys takes the rank 3
  (the names that the object inherits from its prototype are left aside).\<close>

definition riskOrder :: "string \<Rightarrow> int option" where
  "riskOrder r =
     (if r = ''low'' then Some 1 else if r = ''medium'' then Some 2
      else if r = ''high'' then Some 3 else None)"

definition thresholdOrder :: "RiskThreshold \<Rightarrow> int" where
  "thresholdOrder t = (case t of RiskLow \<Rightarrow> 1 | RiskMedium \<Rightarrow> 2 | RiskHigh \<Rightarrow> 3)"

definition isWithinRiskThreshold :: "AutoTuningEngine \<Rightarrow> string \<Rightarrow> bool" where
  "isWithinRiskThreshold this level =
     (let suggestionRisk = (case riskOrder level of Some r \<Rightarrow> r | None \<Rightarrow> 3);
          thresholdRisk = thresholdOrder (riskThreshold (engine_config this))
      in suggestionRisk \<le> thresholdRisk)"

text \<open>\<^verbatim>\<open>isFileModifiable\<close>: an exception of \<^verbatim>\<open>accessSync\<close> is caught and gives
  \<^verbatim>\<open>false\<close>.\<close>

definition isFileModifiable :: "FileSystem \<Rightarrow> string \<Rightarrow> bool" where
  "isFileModifiable fs filePath =
     (existsSync fs filePath \<and>
      (case accessSync_W_OK fs filePath of Inl e \<Rightarrow> False | Inr u \<Rightarrow> True))"

definition filterEligibleSuggestions ::
  "AutoTuningEngine \<Rightarrow> FileSystem \<Rightarrow> OptimizationSuggestion list \<Rightarrow> OptimizationSuggestion list" where
  "filterEligibleSuggestions this fs sugs =
     filter (\<lambda>suggestion.
        if \<not> isWithinRiskThreshold this (riskLevel suggestion) then False
        else if confidence suggestion < 0.7 then False
        else if \<not> isFileModifiable fs (configFile suggestion) then False
        else True) sugs"

text \<open>\<^verbatim>\<open>AutoTuningEngine.calculateStability\<close>, with \<^verbatim>\<open>stdDev / mean || 0\<close> written out:
  for \<open>mean = 0\<close> the quotient is NaN when \<open>stdDev = 0\<close>, which \<^verbatim>\<open>||\<close> replaces by 0, and
  it is \<^verbatim>\<open>Infinity\<close> otherwise, which makes the result \<^verbatim>\<open>Math.max(0, -Infinity) = 0\<close>;
  for any other mean the quotient is kept (a quotient 0 is replaced by 0).\<close>

definition calculateStability_engine :: "MetricsSnapshot list \<Rightarrow> real" where
  "calculateStability_engine snapshots =
     (if length snapshots < 2 then 1
      else
        let cpuValues = map cpu_usage snapshots;
            mean = foldl (+) 0 cpuValues / real (length cpuValues);
            variance = foldl (\<lambda>acc val. acc + (val - mean) ^ 2) 0 cpuValues
                         / real (length cpuValues);
            stdDev = sqrt variance
        in if mean = 0 then (if stdDev = 0 then max 0 (1 - 0) else 0)
           else max 0 (1 - stdDev / mean))"

definition calculateMetricsAverage :: "MetricsSnapshot list \<Rightarrow> MetricsSummary" where
  "calculateMetricsAverage snapshots =
     (if length snapshots = 0 then \<lparr> avgCpu = 0, avgMemory = 0, stability = 1 \<rparr>
      else
        \<lparr> avgCpu = foldl (\<lambda>sum s. sum + cpu_usage s) 0 snapshots / real (length snapshots),
          avgMemory = foldl (\<lambda>sum s. sum + memory_percentage s) 0 snapshots
                        / real (length snapshots),
          stability = calculateStability_engine snapshots \<rparr>)"

text \<open>\<^verbatim>\<open>createBackup\<close>: reads the file, writes the backup record below the backup
  directory, appends the backup to \<^verbatim>\<open>this.backups\<close>. Either I/O step may throw; nothing
  has changed then.\<close>

definition createBackup ::
  "JsonOps \<Rightarrow> AutoTuningEngine \<Rightarrow> FileSystem \<Rightarrow> ApplyStamp \<Rightarrow> string \<Rightarrow> string
     \<Rightarrow> error + (ConfigBackup \<times> AutoTuningEngine \<times> FileSystem)" where
  "createBackup json this fs stamp filePath reason =
     (case readFile fs filePath of
        Inl e \<Rightarrow> Inl e
      | Inr content \<Rightarrow>
          let backup = \<lparr> backup_id = new_backupId stamp,
                         backup_timestamp = backup_date stamp,
                         backup_configFile = filePath,
                         originalContent = content,
                         backup_reason = reason \<rparr>;
              backupFilePath = backupDir this @ ''/'' @ backup_id backup @ ''.backup''
          in case writeFile fs backupFilePath (stringifyBackup json backup) of
               Inl e \<Rightarrow> Inl e
             | Inr fs' \<Rightarrow> Inr (backup, this \<lparr> backups := backups this @ [backup] \<rparr>, fs'))"

text \<open>\<^verbatim>\<open>applyConfigurationChange\<close>: every exception is caught inside; the file system
  is what remains.\<close>

definition applyConfigurationChange ::
  "JsonOps \<Rightarrow> FileSystem \<Rightarrow> OptimizationSuggestion \<Rightarrow> FileSystem" where
  "applyConfigurationChange json fs suggestion =
     (if configFile suggestion = ''system'' \<or> configFile suggestion = ''algorithmic_optimization''
      then fs
      else
        case readFile fs (configFile suggestion) of
          Inl e \<Rightarrow> fs
        | Inr content \<Rightarrow>
            if suffix ''.json'' (configFile suggestion) then
              (if parameter suggestion \<noteq> ''unknown'' then
                 (case setJsonPath json content (parameter suggestion) (suggestedValue suggestion) of
                    None \<Rightarrow> fs
                  | Some content' \<Rightarrow>
                      (case writeFile fs (configFile suggestion) content' of
                         Inl e \<Rightarrow> fs
                       | Inr fs' \<Rightarrow> fs'))
               else fs)
            else fs)"

text \<open>\<^verbatim>\<open>applySuggestion\<close>. The \<^verbatim>\<open>catch\<close> deletes the session identifier from the active
  sessions. The timer of \<^verbatim>\<open>scheduleValidation\<close> is held by the runtime; it later calls
  \<^verbatim>\<open>validateAndFinalize\<close> with the session and backup identifiers of the stamp.\<close>

definition applySuggestion ::
  "JsonOps \<Rightarrow> AutoTuningEngine \<Rightarrow> FileSystem \<Rightarrow> ApplyStamp \<Rightarrow> OptimizationSuggestion
     \<Rightarrow> MetricsSnapshot list \<Rightarrow> AutoTuningEngine \<times> FileSystem" where
  "applySuggestion json this fs stamp suggestion currentMetrics =
     (let sessionId = new_sessionId stamp
      in case createBackup json this fs stamp (configFile suggestion)
                (''Auto-tuning: '' @ suggestion_id suggestion) of
           Inl e \<Rightarrow>
             (this \<lparr> activeSessions := AList.delete sessionId (activeSessions this) \<rparr>, fs)
         | Inr (backup, this1, fs1) \<Rightarrow>
             let session =
                   \<lparr> session_id = sessionId,
                     startTime = start_date stamp,
                     endTime = None,
                     suggestionId = suggestion_id suggestion,
                     session_configFile = configFile suggestion,
                     session_parameter = parameter suggestion,
                     originalValue = currentValue suggestion,
                     newValue = suggestedValue suggestion,
                     status = TESTING,
                     preChangeMetrics = Some (calculateMetricsAverage
                       (drop (length currentMetrics - 5) currentMetrics)),
                     postChangeMetrics = None,
                     improvementMeasured = None,
                     rollbackReason = None \<rparr>;
                 this2 = this1 \<lparr> activeSessions :=
                           AList.update sessionId session (activeSessions this1) \<rparr>;
                 fs2 = applyConfigurationChange json fs1 suggestion
             in (this2, fs2))"

text \<open>\<^verbatim>\<open>Array.prototype.slice(0, stop)\<close>: a negative \<open>stop\<close> counts from the end of the
  array.\<close>

definition slice0 :: "'a list \<Rightarrow> int \<Rightarrow> 'a list" where
  "slice0 xs stop =
     (let len = int (length xs);
          final = (if stop < 0 then max (len + stop) 0 else min stop len)
      in take (nat final) xs)"

text \<open>The loop of \<^verbatim>\<open>processSuggestions\<close>; the \<open>i\<close>-th suggestion applied in a call draws
  \<open>stamp i\<close>.\<close>

fun applyEach ::
  "JsonOps \<Rightarrow> (nat \<Rightarrow> ApplyStamp) \<Rightarrow> nat \<Rightarrow> MetricsSnapshot list \<Rightarrow> OptimizationSuggestion list
     \<Rightarrow> AutoTuningEngine \<times> FileSystem \<Rightarrow> AutoTuningEngine \<times> FileSystem" where
  "applyEach json stamp i currentMetrics [] st = st"
| "applyEach json stamp i currentMetrics (suggestion # rest) st =
     applyEach json stamp (Suc i) currentMetrics rest
       (applySuggestion json (fst st) (snd st) (stamp i) suggestion currentMetrics)"

text \<open>The local \<^verbatim>\<open>toProcess\<close> of \<^verbatim>\<open>processSuggestions\<close>.\<close>

definition toProcess ::
  "AutoTuningEngine \<Rightarrow> FileSystem \<Rightarrow> OptimizationSuggestion list \<Rightarrow> OptimizationSuggestion list" where
  "toProcess this fs sugs =
     (let eligibleSuggestions = filterEligibleSuggestions this fs sugs;
          availableSlots = maxConcurrentChanges (engine_config this)
                             - int (length (activeSessions this))
      in slice0 eligibleSuggestions availableSlots)"

definition processSuggestions ::
  "JsonOps \<Rightarrow> (nat \<Rightarrow> ApplyStamp) \<Rightarrow> AutoTuningEngine \<Rightarrow> FileSystem \<Rightarrow> OptimizationSuggestion list
     \<Rightarrow> MetricsSnapshot list \<Rightarrow> AutoTuningEngine \<times> FileSystem" where
  "processSuggestions json stamp this fs sugs currentMetrics =
     (if \<not> enabled (engine_config this) then (this, fs)
      else if length (filterEligibleSuggestions this fs sugs) = 0 then (this, fs)
      else applyEach json stamp 0 currentMetrics (toProcess this fs sugs) (this, fs))"

text \<open>\<^verbatim>\<open>simulatePostChangeMetrics\<close>; \<open>r1\<close>, \<open>r2\<close>, \<open>r3\<close> are its three draws of
  \<^verbatim>\<open>Math.random()\<close>, each at least 0 and below 1.\<close>

definition simulatePostChangeMetrics :: "MetricsSummary \<Rightarrow> real \<times> real \<times> real \<Rightarrow> MetricsSummary" where
  "simulatePostChangeMetrics preMetrics rnd =
     (case rnd of (r1, r2, r3) \<Rightarrow>
        \<lparr> avgCpu = max 0 (avgCpu preMetrics * (0.9 + r1 * 0.2)),
          avgMemory = max 0 (avgMemory preMetrics * (0.85 + r2 * 0.3)),
          stability = min 1 (stability preMetrics * (1 + r3 * 0.1)) \<rparr>)"

definition cpu_issue :: string where
  "cpu_issue = ''CPU usage increased significantly''"

definition memory_issue :: string where
  "memory_issue = ''Memory usage increased significantly''"

definition stability_issue :: string where
  "stability_issue = ''System stability decreased''"

definition validatePerformanceChange :: "MetricsSummary \<Rightarrow> MetricsSummary \<Rightarrow> ValidationResult" where
  "validatePerformanceChange beforeMetrics afterMetrics =
     (let cpuImprovement = avgCpu beforeMetrics - avgCpu afterMetrics;
          memoryImprovement = avgMemory beforeMetrics - avgMemory afterMetrics;
          stabilityImprovement = stability afterMetrics - stability beforeMetrics;
          overallImprovement =
            cpuImprovement * 0.4 + memoryImprovement * 0.4 + stabilityImprovement * 20;
          valid = (overallImprovement > 0 \<and> avgCpu afterMetrics < 90
                   \<and> avgMemory afterMetrics < 95);
          conf = min 1 (\<bar>overallImprovement\<bar> / 10);
          issues0 = [];
          issues1 = (if avgCpu afterMetrics > avgCpu beforeMetrics * 1.1
                     then issues0 @ [cpu_issue] else issues0);
          issues2 = (if avgMemory afterMetrics > avgMemory beforeMetrics * 1.1
                     then issues1 @ [memory_issue] else issues1);
          issues3 = (if stability afterMetrics < stability beforeMetrics * 0.9
                     then issues2 @ [stability_issue] else issues2)
      in \<lparr> isValid = valid,
           validation_confidence = conf,
           improvementPercent = overallImprovement,
           issues = issues3,
           recommendation = (if valid \<and> overallImprovement > 2 then Keep else Rollback) \<rparr>)"

text \<open>\<^verbatim>\<open>Array.prototype.join\<close>.\<close>

fun join :: "string \<Rightarrow> string list \<Rightarrow> string" where
  "join sep [] = []"
| "join sep [x] = x"
| "join sep (x # y # ys) = x @ sep @ join sep (y # ys)"

text \<open>\<^verbatim>\<open>rollbackChange\<close>: marks the session if it is active, then restores the file of
  the first backup with the given identifier; a failure of the write is caught.\<close>

definition rollbackChange ::
  "AutoTuningEngine \<Rightarrow> FileSystem \<Rightarrow> int \<Rightarrow> string \<Rightarrow> string \<Rightarrow> string
     \<Rightarrow> AutoTuningEngine \<times> FileSystem" where
  "rollbackChange this fs now sessionId backupId reason =
     (let this1 =
            (case map_of (activeSessions this) sessionId of
               None \<Rightarrow> this
             | Some session \<Rightarrow>
                 this \<lparr> activeSessions :=
                   AList.update sessionId
                     (session \<lparr> status := ROLLED_BACK, rollbackReason := Some reason,
                                endTime := Some now \<rparr>)
                     (activeSessions this) \<rparr>)
      in case List.find (\<lambda>b. backup_id b = backupId) (backups this1) of
           None \<Rightarrow> (this1, fs)
         | Some backup \<Rightarrow>
             if backup_configFile backup \<noteq> ''system''
                \<and> backup_configFile backup \<noteq> ''algorithmic_optimization''
             then (case writeFile fs (backup_configFile backup) (originalContent backup) of
                     Inl e \<Rightarrow> (this1, fs)
                   | Inr fs' \<Rightarrow> (this1, fs'))
             else (this1, fs))"

text \<open>The body of the \<^verbatim>\<open>try\<close> of \<^verbatim>\<open>validateAndFinalize\<close> from the point where the
  post-change metrics are at hand. The session object is shared with the map of active
  sessions: an assignment to it is an update of its entry, and after \<^verbatim>\<open>rollbackChange\<close>
  the object is read back from the map.\<close>

definition finalizeWith ::
  "AutoTuningEngine \<Rightarrow> FileSystem \<Rightarrow> int \<Rightarrow> string \<Rightarrow> string \<Rightarrow> AutoTuningSession
     \<Rightarrow> MetricsSummary \<Rightarrow> MetricsSummary \<Rightarrow> AutoTuningEngine \<times> FileSystem" where
  "finalizeWith this fs now sessionId backupId session preMetrics postMetrics =
     (let session1 = session \<lparr> postChangeMetrics := Some postMetrics \<rparr>;
          this1 = this \<lparr> activeSessions := AList.update sessionId session1 (activeSessions this) \<rparr>;
          validation = validatePerformanceChange preMetrics postMetrics
      in if recommendation validation = Keep \<and> isValid validation then
           let session2 = session1 \<lparr> status := SUCCESSFUL,
                                      improvementMeasured := Some (improvementPercent validation),
                                      endTime := Some now \<rparr>
           in (this1 \<lparr> completedSessions := completedSessions this1 @ [session2],
                       activeSessions := AList.delete sessionId (activeSessions this1) \<rparr>, fs)
         else
           case rollbackChange this1 fs now sessionId backupId (join ''; '' (issues validation)) of
             (this2, fs2) \<Rightarrow>
               let session2 = (case map_of (activeSessions this2) sessionId of
                                 Some s \<Rightarrow> s | None \<Rightarrow> session1)
               in (this2 \<lparr> completedSessions := completedSessions this2 @ [session2],
                           activeSessions := AList.delete sessionId (activeSessions this2) \<rparr>, fs2))"

text \<open>\<^verbatim>\<open>validateAndFinalize\<close>. \<^verbatim>\<open>preChangeMetrics\<close> is an optional field of the session:
  when it is undefined, reading \<^verbatim>\<open>preMetrics.avgCpu\<close> in the measurement throws, and the
  \<^verbatim>\<open>catch\<close> rolls the session back.\<close>

definition validateAndFinalize ::
  "AutoTuningEngine \<Rightarrow> FileSystem \<Rightarrow> real \<times> real \<times> real \<Rightarrow> int \<Rightarrow> string \<Rightarrow> string
     \<Rightarrow> AutoTuningEngine \<times> FileSystem" where
  "validateAndFinalize this fs rnd now sessionId backupId =
     (case map_of (activeSessions this) sessionId of
        None \<Rightarrow> (this, fs)
      | Some session \<Rightarrow>
          (case preChangeMetrics session of
             None \<Rightarrow> rollbackChange this fs now sessionId backupId ''Validation error''
           | Some preMetrics \<Rightarrow>
               finalizeWith this fs now sessionId backupId session preMetrics
                 (simulatePostChangeMetrics preMetrics rnd)))"

definition getSuccessfulTunings :: "AutoTuningEngine \<Rightarrow> AutoTuningSession list" where
  "getSuccessfulTunings this = filter (\<lambda>s. status s = SUCCESSFUL) (completedSessions this)"

text \<open>\<^verbatim>\<open>getTuningStats\<close>; \<^verbatim>\<open>s.improvementMeasured || 0\<close> is 0 for an undefined
  measurement.\<close>

definition getTuningStats :: "AutoTuningEngine \<Rightarrow> TuningStats" where
  "getTuningStats this =
     (let total = int (length (completedSessions this));
          successfulCount = int (length (getSuccessfulTunings this));
          rolledBackCount =
            int (length (filter (\<lambda>s. status s = ROLLED_BACK) (completedSessions this)));
          avgImp =
            (if successfulCount > 0
             then foldl (\<lambda>sum s. sum + (case improvementMeasured s of Some x \<Rightarrow> x | None \<Rightarrow> 0))
                    0 (getSuccessfulTunings this) / real_of_int successfulCount
             else 0)
      in \<lparr> totalSessions = total,
           successful = successfulCount,
           rolledBack = rolledBackCount,
           successRate = (if total > 0
                          then (real_of_int successfulCount / real_of_int total) * 100 else 0),
           avgImprovement = avgImp \<rparr>)"

text \<open>\<^verbatim>\<open>cleanupOldBackups\<close>; a failure of \<^verbatim>\<open>fs.remove\<close> is caught.\<close>

definition cleanupOldBackups ::
  "AutoTuningEngine \<Rightarrow> FileSystem \<Rightarrow> int \<Rightarrow> AutoTuningEngine \<times> FileSystem" where
  "cleanupOldBackups this fs now =
     (let cutoff = now - backupRetention (engine_config this) * 24 * 60 * 60 * 1000;
          oldBackups = filter (\<lambda>b. backup_timestamp b < cutoff) (backups this);
          fs' = foldl (\<lambda>f b. case remove_file f (backupDir this @ ''/'' @ backup_id b @ ''.backup'') of
                                Inl e \<Rightarrow> f | Inr f' \<Rightarrow> f') fs oldBackups
      in (this \<lparr> backups := filter (\<lambda>b. backup_timestamp b \<ge> cutoff) (backups this) \<rparr>, fs'))"

section \<open>Runs of the Auto-Tuning Engine\<close>

text \<open>The engine runs on one scheduler: a call of \<^verbatim>\<open>processSuggestions\<close>, a validation
  timer that fires, a housekeeping call, each processed to completion, and between them
  whatever the surroundings do to the files.\<close>

datatype event =
    ProcessSuggestions "nat \<Rightarrow> ApplyStamp" "OptimizationSuggestion list" "MetricsSnapshot list"
  | ValidationTimer "real \<times> real \<times> real" int string string
  | CleanupOldBackups int
  | External "FileSystem \<Rightarrow> FileSystem"

fun step :: "JsonOps \<Rightarrow> event \<Rightarrow> AutoTuningEngine \<times> FileSystem \<Rightarrow> AutoTuningEngine \<times> FileSystem" where
  "step json (ProcessSuggestions stamp sugs currentMetrics) (this, fs) =
     processSuggestions json stamp this fs sugs currentMetrics"
| "step json (ValidationTimer rnd now sessionId backupId) (this, fs) =
     validateAndFinalize this fs rnd now sessionId backupId"
| "step json (CleanupOldBackups now) (this, fs) = cleanupOldBackups this fs now"
| "step json (External change) (this, fs) = (this, change fs)"

fun run :: "JsonOps \<Rightarrow> event list \<Rightarrow> AutoTuningEngine \<times> FileSystem \<Rightarrow> AutoTuningEngine \<times> FileSystem" where
  "run json [] st = st"
| "run json (e # es) st = run json es (step json e st)"

text \<open>The session identifiers that an event hands out.\<close>

fun issued :: "event \<Rightarrow> string set" where
  "issued (ProcessSuggestions stamp sugs currentMetrics) = range (\<lambda>i. new_sessionId (stamp i))"
| "issued (ValidationTimer rnd now sessionId backupId) = {}"
| "issued (CleanupOldBackups now) = {}"
| "issued (External change) = {}"

definition testingCount :: "AutoTuningEngine \<Rightarrow> int" where
  "testingCount this = int (length (filter (\<lambda>(k, s). status s = TESTING) (activeSessions this)))"

section \<open>A worked scenario\<close>

text \<open>One configuration file is tuned on the default configuration. The two functions
  of \<open>demo_json\<close> stand in for the JSON library on the inputs of the scenario: setting
  a key of the empty object \<^verbatim>\<open>{}\<close> to a string gives the object with that one entry,
  printed on three lines with an indentation of two spaces (\<open>CHR 0x22\<close> is the double
  quote, \<open>CHR 0x0A\<close> the line feed).\<close>

definition demo_changed_content :: "string \<Rightarrow> string \<Rightarrow> string" where
  "demo_changed_content param val =
     ''{'' @ [CHR 0x0A] @ ''  '' @ [CHR 0x22] @ param @ [CHR 0x22] @ '': ''
       @ [CHR 0x22] @ val @ [CHR 0x22] @ [CHR 0x0A] @ ''}''"

definition demo_json :: JsonOps where
  "demo_json = \<lparr> stringifyBackup = (\<lambda>b. backup_id b @ '': '' @ originalContent b),
                  setJsonPath = (\<lambda>content param val.
                    if content = ''{}'' \<and> CHR ''.'' \<notin> set param
                    then Some (demo_changed_content param val) else None) \<rparr>"

definition demo_fs :: FileSystem where
  "demo_fs = \<lparr> files = [(''/srv/app/config.json'', ''{}''), (''/srv/app/db.json'', ''{}'')],
                unwritable = [] \<rparr>"

definition demo_suggestion :: "string \<Rightarrow> string \<Rightarrow> OptimizationSuggestion" where
  "demo_suggestion ident file =
     \<lparr> suggestion_id = ident, suggestion_timestamp = 0, priority = HIGH,
       category = PERFORMANCE, configFile = file, parameter = ''pool'',
       currentValue = ''5'', suggestedValue = ''10'', expectedImpact = ''Tune the pool'',
       reasoning = [], confidence = 0.9, estimatedGain_cpu = None, estimatedGain_memory = None,
       estimatedGain_stability = None, riskLevel = ''low'', rollbackPlan = ''Revert'' \<rparr>"

definition demo_stamp :: "nat \<Rightarrow> ApplyStamp" where
  "demo_stamp i = \<lparr> new_sessionId = ''tune_'' @ replicate i CHR ''i'',
                     new_backupId = ''backup_'' @ replicate i CHR ''i'',
                     backup_date = 10, start_date = 11 \<rparr>"

definition demo_metrics :: "MetricsSnapshot list" where
  "demo_metrics = map (\<lambda>t. \<lparr> snapshot_id = ''m'', snapshot_timestamp = t, cpu_usage = 50,
                       memory_percentage = 60, snapshot_configHash = ''h'' \<rparr>) [1, 2, 3]"

text \<open>The state after \<^verbatim>\<open>processSuggestions\<close> has applied the suggestion to
  \<^verbatim>\<open>/srv/app/config.json\<close> (lemma \<open>demo_applied\<close> below).\<close>

definition demo_backup :: ConfigBackup where
  "demo_backup = \<lparr> backup_id = ''backup_'', backup_timestamp = 10,
                    backup_configFile = ''/srv/app/config.json'', originalContent = ''{}'',
                    backup_reason = ''Auto-tuning: opt_1'' \<rparr>"

definition demo_session :: AutoTuningSession where
  "demo_session =
     \<lparr> session_id = ''tune_'', startTime = 11, endTime = None, suggestionId = ''opt_1'',
       session_configFile = ''/srv/app/config.json'', session_parameter = ''pool'',
       originalValue = ''5'', newValue = ''10'', status = TESTING,
       preChangeMetrics = Some \<lparr> avgCpu = 50, avgMemory = 60, stability = 1 \<rparr>,
       postChangeMetrics = None, improvementMeasured = None, rollbackReason = None \<rparr>"

definition demo_engine :: AutoTuningEngine where
  "demo_engine =
     \<lparr> engine_config = defaultConfig, activeSessions = [(''tune_'', demo_session)],
       backups = [demo_backup], completedSessions = [],
       backupDir = ''/srv/app/.configflow/backups'' \<rparr>"

definition demo_fs_applied :: FileSystem where
  "demo_fs_applied =
     \<lparr> files = [(''/srv/app/config.json'', demo_changed_content ''pool'' ''10''),
                (''/srv/app/db.json'', ''{}''),
                (''/srv/app/.configflow/backups/backup_.backup'', ''backup_: {}'')],
       unwritable = [] \<rparr>"

text \<open>A run in which the file loses its write permission while the change is tested, and
  the validation then decides to roll back.\<close>

definition demo_failed_restore :: "AutoTuningEngine \<times> FileSystem" where
  "demo_failed_restore =
     run demo_json
       [ProcessSuggestions demo_stamp [demo_suggestion ''opt_1'' ''/srv/app/config.json'']
          demo_metrics,
        External (\<lambda>f. f \<lparr> unwritable := [''/srv/app/config.json''] \<rparr>),
        ValidationTimer (0, 0.9, 0) 20 ''tune_'' ''backup_'']
       (newEngine defaultConfig ''/srv/app'', demo_fs)"

text \<open>A call that offers two eligible suggestions to an engine with one slot.\<close>

definition demo_two_offered :: "AutoTuningEngine \<times> FileSystem" where
  "demo_two_offered =
     run demo_json
       [ProcessSuggestions demo_stamp
          [demo_suggestion ''opt_1'' ''/srv/app/config.json'',
           demo_suggestion ''opt_2'' ''/srv/app/db.json''] demo_metrics]
       (newEngine defaultConfig ''/srv/app'', demo_fs)"

text \<open>A history at 75% CPU and 90% memory with two unstable baselines, for the
  Optimization Engine.\<close>

definition demo_busy_history :: "MetricsSnapshot list" where
  "demo_busy_history = [\<lparr> snapshot_id = ''m'', snapshot_timestamp = 0, cpu_usage = 75,
                           memory_percentage = 90, snapshot_configHash = ''h1'' \<rparr>]"

definition demo_unstable_baselines :: "PerformanceBaseline list" where
  "demo_unstable_baselines =
     map (\<lambda>(h, s). \<lparr> baseline_configHash = h, baseline_timestamp = 0, baseline_avgCpu = 10,
                      baseline_avgMemory = 10, baseline_maxCpu = 10, baseline_maxMemory = 10,
                      baseline_sampleCount = 5, baseline_stability = s \<rparr>)
       [(''h1'', 0.5), (''h2'', 0.6)]"

definition demo_opt_stamp :: stamps where
  "demo_opt_stamp k = (''opt_'' @ replicate k CHR ''i'', int k)"

text \<open>Scenario B of the specification: three snapshots at 10% CPU before a change, three
  at 20% after it.\<close>

definition demo_change :: ConfigChangeEvent where
  "demo_change = \<lparr> change_id = ''change_1'', change_timestamp = 1000,
                    change_configFile = ''app.json'', changeType = Modified,
                    change_parameter = None, change_configHash = ''h'' \<rparr>"

definition demo_change_history :: "MetricsSnapshot list" where
  "demo_change_history =
     map (\<lambda>(t, c). \<lparr> snapshot_id = ''m'', snapshot_timestamp = t, cpu_usage = c,
                      memory_percentage = 40, snapshot_configHash = ''h'' \<rparr>)
       [(100, 10), (200, 10), (300, 10), (1100, 20), (1200, 20), (1300, 20)]"

definition demo_analyzer :: ImpactAnalyzer where
  "demo_analyzer =
     \<lparr> analyzer_config = \<lparr> minSampleSize = 5, stabilityThreshold = 0.15,
                            significanceThreshold = 0.05, analysisWindow = 300000 \<rparr>,
       baselines = [], changeHistory = [], analysisResults = [] \<rparr>"

text \<open>Six suggestions of all four priorities; the last one has the target of the
  first.\<close>

definition demo_ranked_input :: "OptimizationSuggestion list" where
  "demo_ranked_input =
     [(demo_suggestion ''s_low'' ''a.json'') \<lparr> priority := LOW, confidence := 0.95 \<rparr>,
      (demo_suggestion ''s_critical'' ''b.json'') \<lparr> priority := CRITICAL, confidence := 0.1 \<rparr>,
      (demo_suggestion ''s_medium'' ''c.json'') \<lparr> priority := MEDIUM, confidence := 0.5 \<rparr>,
      (demo_suggestion ''s_high_1'' ''d.json'') \<lparr> priority := HIGH, confidence := 0.3 \<rparr>,
      (demo_suggestion ''s_high_2'' ''e.json'') \<lparr> priority := HIGH, confidence := 0.6 \<rparr>,
      (demo_suggestion ''s_again'' ''a.json'') \<lparr> priority := CRITICAL, confidence := 0.99 \<rparr>]"

text \<open>A run on snapshots that report a CPU usage of \<open>-50\<close>: the suggestion is applied,
  and the validation timer fires with the draws 0, 0.9 and 0 of \<^verbatim>\<open>Math.random()\<close>.\<close>

definition demo_negative_metrics :: "MetricsSnapshot list" where
  "demo_negative_metrics =
     map (\<lambda>t. \<lparr> snapshot_id = ''m'', snapshot_timestamp = t, cpu_usage = - 50,
                 memory_percentage = 60, snapshot_configHash = ''h'' \<rparr>) [1, 2, 3]"

definition demo_two_issues :: "AutoTuningEngine \<times> FileSystem" where
  "demo_two_issues =
     run demo_json
       [ProcessSuggestions demo_stamp [demo_suggestion ''opt_1'' ''/srv/app/config.json'']
          demo_negative_metrics,
        ValidationTimer (0, 0.9, 0) 20 ''tune_'' ''backup_'']
       (newEngine defaultConfig ''/srv/app'', demo_fs)"

lemmas demo_defs = demo_ranked_input_def demo_negative_metrics_def demo_two_issues_def
  demo_changed_content_def demo_json_def demo_fs_def demo_suggestion_def
  demo_stamp_def demo_metrics_def
  demo_backup_def demo_session_def demo_engine_def demo_fs_applied_def demo_failed_restore_def
  demo_two_offered_def demo_busy_history_def demo_unstable_baselines_def
  demo_opt_stamp_def demo_change_def demo_change_history_def demo_analyzer_def

lemmas engine_defs = newEngine_def defaultConfig_def processSuggestions_def toProcess_def
  filterEligibleSuggestions_def isWithinRiskThreshold_def riskOrder_def thresholdOrder_def
  isFileModifiable_def existsSync_def accessSync_W_OK_def slice0_def applySuggestion_def
  createBackup_def readFile_def writeFile_def applyConfigurationChange_def
  calculateMetricsAverage_def calculateStability_engine_def validateAndFinalize_def
  finalizeWith_def simulatePostChangeMetrics_def validatePerformanceChange_def
  rollbackChange_def cpu_issue_def memory_issue_def stability_issue_def testingCount_def

section \<open>Properties of the Impact Analyzer\<close>

lemma foldl_squares_nonneg:
  "0 \<le> acc \<Longrightarrow> 0 \<le> foldl (\<lambda>acc val. acc + (val - (m::real)) ^ 2) acc vals"
  by (induction vals arbitrary: acc) simp_all

lemma variance_of_nonneg: "0 \<le> variance_of vals mean"
  unfolding variance_of_def by (simp add: foldl_squares_nonneg)

lemma foldl_plus_replicate:
  "foldl (+) acc (replicate n (c::real)) = acc + real n * c"
  by (induction n arbitrary: acc) (simp_all add: algebra_simps)

lemma average_replicate: "0 < n \<Longrightarrow> average (replicate n c) = c"
  unfolding average_def by (simp add: foldl_plus_replicate)

lemma foldl_squares_replicate:
  "foldl (\<lambda>acc val. acc + (val - (c::real)) ^ 2) acc (replicate n c) = acc"
  by (induction n arbitrary: acc) simp_all

lemma variance_of_replicate: "variance_of (replicate n c) c = 0"
  unfolding variance_of_def by (simp add: foldl_squares_replicate)

lemma calculateStability_bounds:
  "0 \<le> calculateStability vals \<and> calculateStability vals \<le> 1"
proof (cases "length vals < 2")
  case True
  then show ?thesis by (simp add: calculateStability_def)
next
  case False
  have sd: "0 \<le> sqrt (variance_of vals (average vals))"
    by (simp add: variance_of_nonneg)
  show ?thesis
  proof (cases "average vals > 0")
    case True
    with sd have "0 \<le> sqrt (variance_of vals (average vals)) / average vals"
      by simp
    with False True show ?thesis
      by (simp add: calculateStability_def Let_def)
  next
    case neg: False
    with False show ?thesis
      by (simp add: calculateStability_def Let_def)
  qed
qed

lemma calculateStability_constant: "calculateStability (replicate n c) = 1"
proof (cases "n < 2")
  case True
  then show ?thesis by (simp add: calculateStability_def)
next
  case False
  then have n: "0 < n" by simp
  show ?thesis
    using False
    by (simp add: calculateStability_def Let_def average_replicate [OF n] variance_of_replicate)
qed

text \<open>
  Claim C6. For all \<open>cpuDelta\<close>, \<open>memoryDelta\<close> and \<open>stabilityDelta\<close> the impact score of
  the Impact Analyzer is the clamp to \<open>[-1, 1]\<close> of
  \<open>-0.4 * cpuDelta / 100 - 0.3 * memoryDelta / 100 + 0.3 * stabilityDelta\<close>, and so lies
  between \<open>-1\<close> and \<open>1\<close>.
\<close>

theorem C6_impact_score_clamped:
  "calculateImpactScore c m s = spec_impactScore c m s
   \<and> - 1 \<le> calculateImpactScore c m s \<and> calculateImpactScore c m s \<le> 1"
  by (simp add: calculateImpactScore_def spec_impactScore_def clamp_def Let_def max_def min_def
        algebra_simps)

theorem C6_impact_score_clamped_witness:
  "calculateImpactScore 10 0 0 = - 0.04 \<and> calculateImpactScore 500 0 0 = - 1
   \<and> spec_impactScore 500 0 0 = - 1"
  using C6_impact_score_clamped [of 500 0 0]
  by (simp add: calculateImpactScore_def Let_def)

text \<open>
  Claim C9. Two runs of the impact computation on the same metrics history, change event
  and analysis configuration return the same result, whatever else the two analyzers
  hold (baselines, change ledger, earlier analyses): the impact score, the confidence and
  the recommendation are functions of the three inputs alone.
\<close>

theorem C9_analysis_depends_on_inputs_only:
  "analyzer_config a1 = analyzer_config a2 \<Longrightarrow>
     analyzeChangeImpact toFixed a1 change metricsHistory
       = analyzeChangeImpact toFixed a2 change metricsHistory"
  unfolding analyzeChangeImpact_def by (simp only:)

text \<open>Scenario B of the specification, on a fresh analyzer and on one that has already
  recorded the change.\<close>

theorem C9_analysis_depends_on_inputs_only_witness:
  "analyzeChangeImpact (\<lambda>x d. ''?'') demo_analyzer demo_change demo_change_history
   = analyzeChangeImpact (\<lambda>x d. ''?'') (demo_analyzer \<lparr> changeHistory := [demo_change] \<rparr>)
       demo_change demo_change_history
   \<and> map_option impactScore
         (analyzeChangeImpact (\<lambda>x d. ''?'') (demo_analyzer \<lparr> changeHistory := [demo_change] \<rparr>)
            demo_change demo_change_history) = Some (- 0.04)"
proof -
  have same: "analyzer_config demo_analyzer
                = analyzer_config (demo_analyzer \<lparr> changeHistory := [demo_change] \<rparr>)"
    by simp
  have "map_option impactScore
          (analyzeChangeImpact (\<lambda>x d. ''?'') demo_analyzer demo_change demo_change_history)
        = Some (- 0.04)"
    by (simp add: analyzeChangeImpact_def average_def calculateStability_def variance_of_def
          calculateImpactScore_def Let_def demo_analyzer_def demo_change_def
          demo_change_history_def)
  with C9_analysis_depends_on_inputs_only [OF same, of "\<lambda>x d. ''?''" demo_change
         demo_change_history]
  show ?thesis by simp
qed

subsection \<open>The two stability scores\<close>

lemma foldl_plus_nonneg:
  "0 \<le> acc \<Longrightarrow> \<forall>x \<in> set xs. 0 \<le> (x::real) \<Longrightarrow> 0 \<le> foldl (+) acc xs"
  by (induction xs arbitrary: acc) simp_all

lemma calculateStability_engine_nonneg_series:
  assumes "\<forall>s \<in> set snapshots. 0 \<le> cpu_usage s"
  shows "0 \<le> calculateStability_engine snapshots \<and> calculateStability_engine snapshots \<le> 1"
proof (cases "length snapshots < 2")
  case True
  then show ?thesis by (simp add: calculateStability_engine_def)
next
  case False
  define vals where "vals = map cpu_usage snapshots"
  define mean where "mean = foldl (+) 0 vals / real (length vals)"
  define sd where
    "sd = sqrt (foldl (\<lambda>acc val. acc + (val - mean) ^ 2) 0 vals / real (length vals))"
  have eq: "calculateStability_engine snapshots
              = (if mean = 0 then (if sd = 0 then 1 else 0) else max 0 (1 - sd / mean))"
    using False
    by (simp add: calculateStability_engine_def Let_def vals_def mean_def sd_def)
  have "0 \<le> foldl (+) 0 vals"
    using assms by (intro foldl_plus_nonneg) (simp_all add: vals_def)
  then have mean: "0 \<le> mean" by (simp add: mean_def)
  have sd: "0 \<le> sd"
    by (simp add: sd_def foldl_squares_nonneg)
  with mean have "0 \<le> sd / mean" by simp
  then show ?thesis unfolding eq by simp
qed

lemma calculateStability_engine_constant:
  assumes "\<forall>s \<in> set snapshots. cpu_usage s = c"
  shows "calculateStability_engine snapshots = 1"
proof (cases "length snapshots < 2")
  case True
  then show ?thesis by (simp add: calculateStability_engine_def)
next
  case False
  then have n: "0 < length snapshots" by (cases snapshots) simp_all
  have vals: "map cpu_usage snapshots = replicate (length snapshots) c"
    using assms by (simp add: map_replicate_const [symmetric] cong: map_cong)
  have mean: "foldl (+) 0 (replicate (length snapshots) c) / real (length snapshots) = c"
    using n by (simp add: foldl_plus_replicate)
  show ?thesis
    using False
    by (simp add: calculateStability_engine_def Let_def vals mean foldl_squares_replicate)
qed

text \<open>
  Claim C7. For every non-empty numeric series the stability score of
  \<open>calculateStability\<close>, in the Impact Analyzer and in the Auto-Tuning Engine, lies
  between 0 and 1, and a constant series has stability 1. The analyzer's function
  meets this (\<open>calculateStability_bounds\<close>, \<open>calculateStability_constant\<close>); the
  engine's function gives 1 on a constant series
  (\<open>calculateStability_engine_constant\<close>) and stays between 0 and 1 on a series
  without negative values (\<open>calculateStability_engine_nonneg_series\<close>). On the
  snapshots with CPU usage \<open>-1\<close> and \<open>-3\<close> the engine's function returns \<open>3/2\<close>: it
  divides by the negative mean, where the analyzer's function takes the coefficient of
  variation to be 0.
\<close>

theorem C7_engine_stability_exceeds_one:
  "calculateStability_engine
     [\<lparr> snapshot_id = ''m1'', snapshot_timestamp = 1, cpu_usage = - 1, memory_percentage = 40,
        snapshot_configHash = ''h'' \<rparr>,
      \<lparr> snapshot_id = ''m2'', snapshot_timestamp = 2, cpu_usage = - 3, memory_percentage = 40,
        snapshot_configHash = ''h'' \<rparr>] = 3 / 2
   \<and> calculateStability [- 1, - 3] = 1"
  by (simp add: calculateStability_engine_def calculateStability_def average_def Let_def
        power2_eq_square)

section \<open>Properties of the Optimization Engine\<close>

lemma findIndex_ge: "- 1 \<le> findIndex P xs"
  by (induction xs) (auto simp: Let_def)

lemma findIndex_neg_iff: "findIndex P xs < 0 \<longleftrightarrow> (\<forall>x\<in>set xs. \<not> P x)"
  using findIndex_ge [of P]
  by (induction xs) (auto simp: Let_def)

lemma findIndex_first:
  "0 \<le> findIndex P xs \<Longrightarrow>
     nat (findIndex P xs) < length xs \<and> P (xs ! nat (findIndex P xs))
     \<and> (\<forall>j < nat (findIndex P xs). \<not> P (xs ! j))"
proof (induction xs)
  case Nil
  then show ?case by simp
next
  case (Cons x xs)
  show ?case
  proof (cases "P x")
    case True
    then show ?thesis by simp
  next
    case False
    with Cons.prems have nn: "0 \<le> findIndex P xs"
      by (simp add: Let_def split: if_splits)
    with False have eq: "findIndex P (x # xs) = findIndex P xs + 1"
      by (simp add: Let_def)
    from Cons.IH [OF nn] have ih: "nat (findIndex P xs) < length xs" 
      "P (xs ! nat (findIndex P xs))" "\<forall>j < nat (findIndex P xs). \<not> P (xs ! j)" by auto
    have n: "nat (findIndex P xs + 1) = Suc (nat (findIndex P xs))" using nn by simp
    show ?thesis unfolding eq n using ih False
      by (auto simp: nth_Cons split: nat.splits)
  qed
qed

lemma findIndex_find:
  "0 \<le> findIndex P xs \<Longrightarrow> List.find P xs = Some (xs ! nat (findIndex P xs))"
proof (induction xs)
  case Nil
  then show ?case by simp
next
  case (Cons x xs)
  show ?case
  proof (cases "P x")
    case True
    then show ?thesis by simp
  next
    case False
    with Cons.prems have nn: "0 \<le> findIndex P xs"
      by (simp add: Let_def split: if_splits)
    with False have eq: "findIndex P (x # xs) = findIndex P xs + 1"
      by (simp add: Let_def)
    have n: "nat (findIndex P xs + 1) = Suc (nat (findIndex P xs))" using nn by simp
    show ?thesis unfolding eq n using Cons.IH [OF nn] False by simp
  qed
qed

lemma uniqueSuggestions_index:
  "uniqueSuggestions xs =
     map (nth xs) (filter (\<lambda>i. int i = findIndex (sameTarget (xs ! i)) xs) [0..<length xs])"
proof -
  have "enumerate 0 xs = map (\<lambda>i. (i, xs ! i)) [0..<length xs]"
    by (simp add: enumerate_eq_zip zip_eq_conv map_nth comp_def)
  then show ?thesis
    by (simp add: uniqueSuggestions_def filter_map comp_def)
qed


lemma sameTarget_key:
  "sameTarget a = sameTarget b \<longleftrightarrow> (configFile a = configFile b \<and> parameter a = parameter b)"
  by (auto simp: sameTarget_def fun_eq_iff)

lemma uniqueSuggestions_distinct_targets:
  "distinct (map (\<lambda>s. (configFile s, parameter s)) (uniqueSuggestions xs))"
proof -
  let ?Q = "\<lambda>i. int i = findIndex (sameTarget (xs ! i)) xs"
  have "inj_on (\<lambda>i. (configFile (xs ! i), parameter (xs ! i))) (set (filter ?Q [0..<length xs]))"
  proof (rule inj_onI)
    fix i j
    assume i: "i \<in> set (filter ?Q [0..<length xs])" and j: "j \<in> set (filter ?Q [0..<length xs])"
      and k: "(configFile (xs ! i), parameter (xs ! i)) = (configFile (xs ! j), parameter (xs ! j))"
    from k have "sameTarget (xs ! i) = sameTarget (xs ! j)"
      by (simp add: sameTarget_key)
    with i j have "int i = int j" by simp
    then show "i = j" by simp
  qed
  then show ?thesis
    by (simp add: uniqueSuggestions_index distinct_map comp_def)
qed

lemma uniqueSuggestions_first:
  assumes "s \<in> set (uniqueSuggestions xs)"
  shows "List.find (sameTarget s) xs = Some s"
proof -
  from assms obtain i where i: "i < length xs" "s = xs ! i"
    "int i = findIndex (sameTarget (xs ! i)) xs"
    by (auto simp: uniqueSuggestions_index)
  then have nn: "0 \<le> findIndex (sameTarget s) xs" by simp
  from i have "nat (findIndex (sameTarget s) xs) = i" by (metis nat_int)
  with findIndex_find [OF nn] i show ?thesis by simp
qed

lemma uniqueSuggestions_complete:
  assumes "x \<in> set xs"
  shows "\<exists>s \<in> set (uniqueSuggestions xs). sameTarget x s"
proof -
  have "sameTarget x x" by (simp add: sameTarget_def)
  with assms have "\<not> findIndex (sameTarget x) xs < 0"
    by (auto simp: findIndex_neg_iff)
  then have nn: "0 \<le> findIndex (sameTarget x) xs" by simp
  define i where "i = nat (findIndex (sameTarget x) xs)"
  from findIndex_first [OF nn] have i: "i < length xs" "sameTarget x (xs ! i)"
    by (simp_all add: i_def)
  then have "sameTarget (xs ! i) = sameTarget x"
    by (auto simp: sameTarget_def fun_eq_iff)
  with nn have "int i = findIndex (sameTarget (xs ! i)) xs"
    by (simp add: i_def)
  with i have "xs ! i \<in> set (uniqueSuggestions xs)"
    by (auto simp: uniqueSuggestions_index)
  with i show ?thesis by blast
qed

lemma set_insort_cmp: "set (insort_cmp cmp x ys) = insert x (set ys)"
  by (induction ys) auto

lemma set_js_sort: "set (js_sort cmp xs) = set xs"
  unfolding js_sort_def by (induction xs) (simp_all add: set_insort_cmp)

lemma distinct_map_insort_cmp:
  "distinct (map f (insort_cmp cmp x ys)) \<longleftrightarrow> f x \<notin> f ` set ys \<and> distinct (map f ys)"
  by (induction ys) (auto simp: set_insort_cmp)

lemma distinct_map_js_sort: "distinct (map f (js_sort cmp xs)) \<longleftrightarrow> distinct (map f xs)"
  unfolding js_sort_def
  by (induction xs) (simp_all add: distinct_map_insort_cmp set_js_sort [unfolded js_sort_def])

text \<open>The rank table of the code realises the order of the specification.\<close>

lemma priorityOrder_outranks: "priorityOrder q < priorityOrder p \<longleftrightarrow> outranks p q"
  by (cases p; cases q) (simp_all add: priorityOrder_def)

lemma priorityOrder_eq: "priorityOrder p = priorityOrder q \<longleftrightarrow> p = q"
  by (cases p; cases q) (simp_all add: priorityOrder_def)

lemma ranksBefore_priorityOrder:
  "ranksBefore a b \<longleftrightarrow>
     priorityOrder (priority b) < priorityOrder (priority a)
     \<or> (priorityOrder (priority a) = priorityOrder (priority b) \<and> confidence b \<le> confidence a)"
  by (simp add: ranksBefore_def priorityOrder_outranks priorityOrder_eq)

lemma ranksBefore_cmp: "ranksBefore a b \<longleftrightarrow> compareSuggestions a b \<le> 0"
  by (auto simp: ranksBefore_priorityOrder compareSuggestions_def Let_def)

lemma ranksBefore_total: "\<not> ranksBefore a b \<Longrightarrow> ranksBefore b a"
  by (auto simp: ranksBefore_priorityOrder)

lemma ranksBefore_trans: "ranksBefore a b \<Longrightarrow> ranksBefore b c \<Longrightarrow> ranksBefore a c"
  by (auto simp: ranksBefore_priorityOrder)

lemma sorted_insort_cmp:
  "sorted_wrt ranksBefore ys \<Longrightarrow> sorted_wrt ranksBefore (insort_cmp compareSuggestions x ys)"
proof (induction ys)
  case Nil
  then show ?case by simp
next
  case (Cons y ys)
  show ?case
  proof (cases "compareSuggestions x y \<le> 0")
    case True
    then have xy: "ranksBefore x y" by (simp add: ranksBefore_cmp)
    with Cons.prems have "\<forall>z\<in>set ys. ranksBefore x z"
      by (auto intro: ranksBefore_trans)
    with xy True Cons.prems show ?thesis by simp
  next
    case False
    then have "ranksBefore y x"
      using ranksBefore_total [of x y] by (simp add: ranksBefore_cmp)
    with False Cons show ?thesis
      by (auto simp: set_insort_cmp)
  qed
qed

lemma sorted_js_sort: "sorted_wrt ranksBefore (js_sort compareSuggestions xs)"
  unfolding js_sort_def by (induction xs) (simp_all add: sorted_insort_cmp)

lemma sameTarget_words:
  "sameTarget s = (\<lambda>t. configFile t = configFile s \<and> parameter t = parameter s)"
  by (simp add: sameTarget_def fun_eq_iff)

text \<open>
  Claim C8. For every list of generated suggestions, the list that
  \<open>generateSuggestions\<close> returns holds at most one suggestion for each pair of
  configuration file and parameter, which is the first one generated for that pair (and
  every generated pair is represented), and it is sorted by priority rank (critical over
  high over medium over low), equal ranks by descending confidence.
\<close>

theorem C8_suggestions_unique_and_ranked:
  "fst (generateSuggestions toFixed stamp this analyses bases configFiles metricsHistory)
     = filterAndPrioritizeSuggestions
         (newSuggestionsOf toFixed stamp analyses bases configFiles metricsHistory)
   \<and> distinct (map (\<lambda>s. (configFile s, parameter s)) (filterAndPrioritizeSuggestions xs))
   \<and> (\<forall>s \<in> set (filterAndPrioritizeSuggestions xs).
         List.find (\<lambda>t. configFile t = configFile s \<and> parameter t = parameter s) xs = Some s)
   \<and> (\<forall>x \<in> set xs. \<exists>s \<in> set (filterAndPrioritizeSuggestions xs).
         configFile s = configFile x \<and> parameter s = parameter x)
   \<and> sorted_wrt ranksBefore (filterAndPrioritizeSuggestions xs)"
proof (intro conjI ballI)
  show "fst (generateSuggestions toFixed stamp this analyses bases configFiles metricsHistory)
     = filterAndPrioritizeSuggestions
         (newSuggestionsOf toFixed stamp analyses bases configFiles metricsHistory)"
    by (simp add: generateSuggestions_def Let_def)
  show "distinct (map (\<lambda>s. (configFile s, parameter s)) (filterAndPrioritizeSuggestions xs))"
    by (simp add: filterAndPrioritizeSuggestions_def distinct_map_js_sort
          uniqueSuggestions_distinct_targets)
  show "sorted_wrt ranksBefore (filterAndPrioritizeSuggestions xs)"
    by (simp add: filterAndPrioritizeSuggestions_def sorted_js_sort)
next
  fix s assume "s \<in> set (filterAndPrioritizeSuggestions xs)"
  then have "List.find (sameTarget s) xs = Some s"
    by (simp add: filterAndPrioritizeSuggestions_def set_js_sort uniqueSuggestions_first)
  then show "List.find (\<lambda>t. configFile t = configFile s \<and> parameter t = parameter s) xs = Some s"
    by (simp add: sameTarget_words)
next
  fix x assume "x \<in> set xs"
  then have "\<exists>s \<in> set (filterAndPrioritizeSuggestions xs). sameTarget x s"
    by (simp add: filterAndPrioritizeSuggestions_def set_js_sort uniqueSuggestions_complete)
  then show "\<exists>s \<in> set (filterAndPrioritizeSuggestions xs).
               configFile s = configFile x \<and> parameter s = parameter x"
    by (simp add: sameTarget_def)
qed

text \<open>The busy history with the two unstable baselines: the passes generate five
  suggestions, two of them for the same target; four are returned, the one of high
  priority first, the three of medium priority by confidence 0.75, 0.7, 0.6.\<close>

lemma demo_generated_ids:
  "map suggestion_id
     (filterAndPrioritizeSuggestions
        (newSuggestionsOf (\<lambda>x d. ''?'') demo_opt_stamp [] demo_unstable_baselines []
           demo_busy_history))
   = [''opt_'', ''opt_iiii'', ''opt_i'', ''opt_ii'']"
  by (simp add: newSuggestionsOf_def filterAndPrioritizeSuggestions_def
       calculateLatestMetrics_def analyzePoorPerformance_def identifyResourceOptimizations_def
       detectStabilityIssues_def applyAlgorithmicOptimizations_def uniqueSuggestions_def
       js_sort_def compareSuggestions_def priorityOrder_def sameTarget_def Let_def enumerate_eq_zip
       demo_opt_stamp_def demo_unstable_baselines_def demo_busy_history_def)

text \<open>The six suggestions of four priorities: the critical one comes first although its
  confidence is the lowest, the low one last although its confidence is the highest of
  those returned, the two high ones by confidence, and the second suggestion for
  \<^verbatim>\<open>a.json\<close> is dropped although it is critical.\<close>

lemma demo_ranked_ids:
  "map suggestion_id (filterAndPrioritizeSuggestions demo_ranked_input)
     = [''s_critical'', ''s_high_2'', ''s_high_1'', ''s_medium'', ''s_low'']
   \<and> map priority (filterAndPrioritizeSuggestions demo_ranked_input)
     = [CRITICAL, HIGH, HIGH, MEDIUM, LOW]
   \<and> map confidence (filterAndPrioritizeSuggestions demo_ranked_input)
     = [0.1, 0.6, 0.3, 0.5, 0.95]"
  by (simp add: filterAndPrioritizeSuggestions_def uniqueSuggestions_def js_sort_def
       compareSuggestions_def priorityOrder_def sameTarget_def Let_def enumerate_eq_zip
       demo_ranked_input_def demo_suggestion_def)

theorem C8_suggestions_unique_and_ranked_witness:
  "map suggestion_id (filterAndPrioritizeSuggestions demo_ranked_input)
     = [''s_critical'', ''s_high_2'', ''s_high_1'', ''s_medium'', ''s_low'']
   \<and> map priority (filterAndPrioritizeSuggestions demo_ranked_input)
     = [CRITICAL, HIGH, HIGH, MEDIUM, LOW]
   \<and> map confidence (filterAndPrioritizeSuggestions demo_ranked_input)
     = [0.1, 0.6, 0.3, 0.5, 0.95]
   \<and> sorted_wrt ranksBefore (filterAndPrioritizeSuggestions demo_ranked_input)
   \<and> distinct (map (\<lambda>s. (configFile s, parameter s))
         (filterAndPrioritizeSuggestions demo_ranked_input))
   \<and> map suggestion_id
         (fst (generateSuggestions (\<lambda>x d. ''?'') demo_opt_stamp \<lparr> suggestions = [] \<rparr> []
                 demo_unstable_baselines [] demo_busy_history))
       = [''opt_'', ''opt_iiii'', ''opt_i'', ''opt_ii'']"
  using C8_suggestions_unique_and_ranked [of "\<lambda>x d. ''?''" demo_opt_stamp
          "\<lparr> suggestions = [] \<rparr>" "[]" demo_unstable_baselines "[]" demo_busy_history
          demo_ranked_input]
    demo_generated_ids demo_ranked_ids
  by simp

section \<open>Properties of the Auto-Tuning Engine\<close>

subsection \<open>Frame lemmas: configuration and size of the active set\<close>

lemma length_update_le: "length (AList.update k v al) \<le> Suc (length al)"
  by (induction al) auto

lemma length_update_present:
  "map_of al k = Some v' \<Longrightarrow> length (AList.update k v al) = length al"
  by (induction al) (auto split: if_splits)

lemma length_delete_le_engine: "length (AList.delete k al) \<le> length al"
  by (rule AList.length_delete_le)

lemma createBackup_frame:
  "createBackup json this fs stamp filePath reason = Inr (backup, this1, fs1) \<Longrightarrow>
     engine_config this1 = engine_config this \<and> activeSessions this1 = activeSessions this
     \<and> completedSessions this1 = completedSessions this
     \<and> backups this1 = backups this @ [backup]"
  by (auto simp: createBackup_def Let_def split: sum.splits)

lemma applySuggestion_config:
  "engine_config (fst (applySuggestion json this fs stamp suggestion currentMetrics))
     = engine_config this"
  by (auto simp: applySuggestion_def Let_def split: sum.splits prod.splits
        dest: createBackup_frame)

lemma applySuggestion_length:
  "length (activeSessions (fst (applySuggestion json this fs stamp suggestion currentMetrics)))
     \<le> Suc (length (activeSessions this))"
proof (cases "createBackup json this fs stamp (configFile suggestion)
                (''Auto-tuning: '' @ suggestion_id suggestion)")
  case (Inl e)
  then show ?thesis
    using length_delete_le_engine [of "new_sessionId stamp" "activeSessions this"]
    by (simp add: applySuggestion_def Let_def)
next
  case (Inr r)
  obtain backup this1 fs1 where r: "r = (backup, this1, fs1)" by (cases r) auto
  from createBackup_frame [OF Inr [unfolded r]]
  have "activeSessions this1 = activeSessions this" by simp
  with Inr r show ?thesis
    by (simp add: applySuggestion_def Let_def length_update_le)
qed

lemma applyEach_config:
  "engine_config (fst (applyEach json stamp i currentMetrics xs st)) = engine_config (fst st)"
  by (induction xs arbitrary: i st) (simp_all add: applySuggestion_config)

lemma applyEach_length:
  "length (activeSessions (fst (applyEach json stamp i currentMetrics xs st)))
     \<le> length (activeSessions (fst st)) + length xs"
proof (induction xs arbitrary: i st)
  case Nil
  then show ?case by simp
next
  case (Cons x xs)
  have "length (activeSessions (fst (applyEach json stamp (Suc i) currentMetrics xs
          (applySuggestion json (fst st) (snd st) (stamp i) x currentMetrics))))
        \<le> length (activeSessions (fst (applySuggestion json (fst st) (snd st) (stamp i) x
              currentMetrics))) + length xs"
    by (rule Cons.IH)
  also have "\<dots> \<le> Suc (length (activeSessions (fst st))) + length xs"
    using applySuggestion_length [of json "fst st" "snd st" "stamp i" x currentMetrics] by simp
  finally show ?case by simp
qed

lemma toProcess_take:
  "int (length (activeSessions this)) \<le> maxConcurrentChanges (engine_config this) \<Longrightarrow>
     toProcess this fs sugs
       = take (nat (maxConcurrentChanges (engine_config this) - int (length (activeSessions this))))
           (filterEligibleSuggestions this fs sugs)"
  by (simp add: toProcess_def slice0_def Let_def min_def)

lemma processSuggestions_config:
  "engine_config (fst (processSuggestions json stamp this fs sugs currentMetrics))
     = engine_config this"
  by (simp add: processSuggestions_def applyEach_config)

lemma processSuggestions_length:
  assumes "int (length (activeSessions this)) \<le> maxConcurrentChanges (engine_config this)"
  shows "int (length (activeSessions (fst (processSuggestions json stamp this fs sugs
            currentMetrics)))) \<le> maxConcurrentChanges (engine_config this)"
proof -
  let ?N = "maxConcurrentChanges (engine_config this)"
  let ?tp = "toProcess this fs sugs"
  have "length ?tp \<le> nat (?N - int (length (activeSessions this)))"
    by (simp add: toProcess_take [OF assms])
  then have tp: "int (length ?tp) \<le> ?N - int (length (activeSessions this))"
    using assms by linarith
  have "length (activeSessions (fst (applyEach json stamp 0 currentMetrics ?tp (this, fs))))
          \<le> length (activeSessions this) + length ?tp"
    using applyEach_length [of json stamp 0 currentMetrics ?tp "(this, fs)"] by simp
  with tp have "int (length (activeSessions (fst (applyEach json stamp 0 currentMetrics ?tp
                  (this, fs))))) \<le> ?N"
    by linarith
  with assms show ?thesis
    by (simp add: processSuggestions_def)
qed

lemma rollbackChange_frame:
  "engine_config (fst (rollbackChange this fs now sessionId backupId reason)) = engine_config this
   \<and> length (activeSessions (fst (rollbackChange this fs now sessionId backupId reason)))
       = length (activeSessions this)
   \<and> completedSessions (fst (rollbackChange this fs now sessionId backupId reason))
       = completedSessions this
   \<and> backups (fst (rollbackChange this fs now sessionId backupId reason)) = backups this"
  by (auto simp: rollbackChange_def Let_def length_update_present
        split: option.splits sum.splits)

lemma finalizeWith_frame:
  assumes "map_of (activeSessions this) sessionId = Some session0"
  shows "engine_config (fst (finalizeWith this fs now sessionId backupId session pre post))
           = engine_config this
   \<and> length (activeSessions (fst (finalizeWith this fs now sessionId backupId session pre post)))
       \<le> length (activeSessions this)"
proof -
  let ?this1 = "this \<lparr> activeSessions := AList.update sessionId
                  (session \<lparr> postChangeMetrics := Some post \<rparr>) (activeSessions this) \<rparr>"
  have l1: "length (activeSessions ?this1) = length (activeSessions this)"
    using assms by (simp add: length_update_present)
  have c1: "engine_config ?this1 = engine_config this" by simp
  let ?r = "rollbackChange ?this1 fs now sessionId backupId
              (join ''; '' (issues (validatePerformanceChange pre post)))"
  from rollbackChange_frame [of ?this1 fs now sessionId backupId
          "join ''; '' (issues (validatePerformanceChange pre post))"]
  have r: "engine_config (fst ?r) = engine_config this"
    "length (activeSessions (fst ?r)) = length (activeSessions this)"
    using l1 c1 by simp_all
  show ?thesis
    using l1 r length_delete_le_engine [of sessionId "activeSessions ?this1"]
      length_delete_le_engine [of sessionId "activeSessions (fst ?r)"]
    by (auto simp: finalizeWith_def Let_def split: prod.splits)
qed

lemma validateAndFinalize_frame:
  "engine_config (fst (validateAndFinalize this fs rnd now sessionId backupId)) = engine_config this
   \<and> length (activeSessions (fst (validateAndFinalize this fs rnd now sessionId backupId)))
       \<le> length (activeSessions this)"
  using rollbackChange_frame [of this fs now sessionId backupId "''Validation error''"]
  by (auto simp: validateAndFinalize_def finalizeWith_frame split: option.splits)

lemma cleanupOldBackups_frame:
  "engine_config (fst (cleanupOldBackups this fs now)) = engine_config this
   \<and> activeSessions (fst (cleanupOldBackups this fs now)) = activeSessions this
   \<and> completedSessions (fst (cleanupOldBackups this fs now)) = completedSessions this"
  by (simp add: cleanupOldBackups_def Let_def)

lemma step_invariant:
  assumes "int (length (activeSessions (fst st))) \<le> maxConcurrentChanges (engine_config (fst st))"
  shows "engine_config (fst (step json e st)) = engine_config (fst st)
   \<and> int (length (activeSessions (fst (step json e st))))
       \<le> maxConcurrentChanges (engine_config (fst st))"
proof (cases st)
  case (Pair this fs)
  show ?thesis
  proof (cases e)
    case (ProcessSuggestions stamp sugs currentMetrics)
    with Pair assms show ?thesis
      by (simp add: processSuggestions_config processSuggestions_length)
  next
    case (ValidationTimer rnd now sessionId backupId)
    with Pair assms validateAndFinalize_frame [of this fs rnd now sessionId backupId]
    show ?thesis by simp
  next
    case (CleanupOldBackups now)
    with Pair assms show ?thesis by (simp add: cleanupOldBackups_frame)
  next
    case (External change)
    with Pair assms show ?thesis by simp
  qed
qed

lemma run_invariant:
  "int (length (activeSessions (fst st))) \<le> maxConcurrentChanges (engine_config (fst st)) \<Longrightarrow>
     engine_config (fst (run json es st)) = engine_config (fst st)
     \<and> int (length (activeSessions (fst (run json es st))))
         \<le> maxConcurrentChanges (engine_config (fst st))"
proof (induction es arbitrary: st)
  case Nil
  then show ?case by simp
next
  case (Cons e es)
  from step_invariant [OF Cons.prems, of json e]
  have s: "engine_config (fst (step json e st)) = engine_config (fst st)"
    "int (length (activeSessions (fst (step json e st))))
       \<le> maxConcurrentChanges (engine_config (fst (step json e st)))"
    by simp_all
  from Cons.IH [OF s(2)] s(1) show ?case by simp
qed

lemma testingCount_le: "testingCount this \<le> int (length (activeSessions this))"
  by (simp add: testingCount_def)

text \<open>
  Claim C2. For every configured \<open>maxConcurrentChanges = N\<close> (a count, so \<open>0 \<le> N\<close>) and
  every sequence of \<open>processSuggestions\<close> calls, validation completions, housekeeping
  calls and changes of the files from outside, started on a new engine, at most \<open>N\<close>
  sessions have status \<open>TESTING\<close>: in the state reached, and after each of the
  suggestions that a further call applies. Such a call admits the first
  \<open>N - |active sessions|\<close> eligible suggestions, in the order of the suggestions.
\<close>

theorem C2_session_exclusivity:
  assumes "0 \<le> maxConcurrentChanges cfg"
      and "st = run json events (newEngine cfg cwd, fs0)"
  shows "testingCount (fst st) \<le> maxConcurrentChanges cfg
       \<and> toProcess (fst st) (snd st) sugs
           = take (nat (maxConcurrentChanges cfg - int (length (activeSessions (fst st)))))
               (filterEligibleSuggestions (fst st) (snd st) sugs)
       \<and> testingCount (fst (applyEach json stamp 0 currentMetrics
             (take n (toProcess (fst st) (snd st) sugs)) st)) \<le> maxConcurrentChanges cfg"
proof -
  let ?N = "maxConcurrentChanges cfg"
  have init: "int (length (activeSessions (fst (newEngine cfg cwd, fs0))))
                \<le> maxConcurrentChanges (engine_config (fst (newEngine cfg cwd, fs0)))"
    using assms(1) by (simp add: newEngine_def)
  from run_invariant [OF init, of json events] assms(2)
  have cfg: "engine_config (fst st) = cfg"
    and len: "int (length (activeSessions (fst st))) \<le> ?N"
    by (simp_all add: newEngine_def)
  have a: "testingCount (fst st) \<le> ?N"
    using testingCount_le [of "fst st"] len by linarith
  have b: "toProcess (fst st) (snd st) sugs
           = take (nat (?N - int (length (activeSessions (fst st)))))
               (filterEligibleSuggestions (fst st) (snd st) sugs)"
    using toProcess_take [of "fst st" "snd st" sugs] len cfg by simp
  let ?tp = "toProcess (fst st) (snd st) sugs"
  have "length (take n ?tp) \<le> nat (?N - int (length (activeSessions (fst st))))"
    by (simp add: b)
  then have tp: "int (length (take n ?tp)) \<le> ?N - int (length (activeSessions (fst st)))"
    using len by linarith
  have "length (activeSessions (fst (applyEach json stamp 0 currentMetrics (take n ?tp) st)))
          \<le> length (activeSessions (fst st)) + length (take n ?tp)"
    by (rule applyEach_length)
  with tp have "int (length (activeSessions (fst (applyEach json stamp 0 currentMetrics
                  (take n ?tp) st)))) \<le> ?N"
    by linarith
  then have c: "testingCount (fst (applyEach json stamp 0 currentMetrics (take n ?tp) st)) \<le> ?N"
    using testingCount_le [of "fst (applyEach json stamp 0 currentMetrics (take n ?tp) st)"]
    by linarith
  from a b c show ?thesis by simp
qed

lemma demo_applied:
  "processSuggestions demo_json demo_stamp (newEngine defaultConfig ''/srv/app'') demo_fs
     [demo_suggestion ''opt_1'' ''/srv/app/config.json''] demo_metrics
   = (demo_engine, demo_fs_applied)"
  by (simp add: engine_defs demo_defs Let_def suffix_def)

theorem C2_session_exclusivity_witness:
  "map fst (activeSessions (fst demo_two_offered)) = [''tune_'']
   \<and> testingCount (fst demo_two_offered) = 1
   \<and> testingCount (fst demo_two_offered) \<le> maxConcurrentChanges defaultConfig"
proof -
  have n: "0 \<le> maxConcurrentChanges defaultConfig"
    by (simp add: defaultConfig_def)
  have ev: "map fst (activeSessions (fst demo_two_offered)) = [''tune_'']
            \<and> testingCount (fst demo_two_offered) = 1"
    by (simp add: engine_defs demo_defs Let_def suffix_def)
  from C2_session_exclusivity [OF n demo_two_offered_def] ev show ?thesis by simp
qed

subsection \<open>Files\<close>

lemma readFile_writeFile: "writeFile fs p c = Inr fs' \<Longrightarrow> readFile fs' p = Inr c"
  by (auto simp: writeFile_def readFile_def AList.update_conv' split: if_splits)

lemma createBackup_captures:
  "createBackup json this fs stamp filePath reason = Inr (backup, this1, fs1) \<Longrightarrow>
     readFile fs filePath = Inr (originalContent backup) \<and> backup_configFile backup = filePath
     \<and> backup_id backup = new_backupId stamp"
  by (auto simp: createBackup_def Let_def split: sum.splits)

lemma rollbackChange_restores:
  assumes "List.find (\<lambda>b. backup_id b = backupId) (backups this) = Some backup"
      and "backup_configFile backup \<noteq> ''system''"
      and "backup_configFile backup \<noteq> ''algorithmic_optimization''"
      and "backup_configFile backup \<notin> set (unwritable fs)"
  shows "readFile (snd (rollbackChange this fs now sessionId backupId reason))
           (backup_configFile backup) = Inr (originalContent backup)"
proof -
  obtain fs' where w: "writeFile fs (backup_configFile backup) (originalContent backup) = Inr fs'"
    using assms(4) by (simp add: writeFile_def)
  have "snd (rollbackChange this fs now sessionId backupId reason) = fs'"
    using assms(1-3) w
    by (auto simp: rollbackChange_def Let_def split: option.splits)
  with readFile_writeFile [OF w] show ?thesis by simp
qed

text \<open>
  Claim C1 (amended). For every tuning session that is rolled back with a target file
  that is not one of the virtual sentinels: if the backup that \<open>createBackup\<close> took is
  the first entry of the engine's backup list with its identifier and the write to the
  target file succeeds, then after \<open>rollbackChange\<close> the content of the target file is,
  byte for byte, the \<open>originalContent\<close> of that backup, which is what the file held when
  \<open>createBackup\<close> read it. (When the write fails, the failure is caught and the file
  stays as it is.)
\<close>

theorem C1_rollback_restores_backup:
  assumes "createBackup json this0 fs0 stamp filePath why = Inr (backup, this1, fs1)"
      and "List.find (\<lambda>b. backup_id b = backup_id backup) (backups this) = Some backup"
      and "filePath \<noteq> ''system''" and "filePath \<noteq> ''algorithmic_optimization''"
      and "filePath \<notin> set (unwritable fs)"
  shows "readFile fs0 filePath = Inr (originalContent backup)
       \<and> readFile (snd (rollbackChange this fs now sessionId (backup_id backup) reason)) filePath
           = Inr (originalContent backup)"
proof -
  from createBackup_captures [OF assms(1)]
  have c: "readFile fs0 filePath = Inr (originalContent backup)"
    "backup_configFile backup = filePath" by simp_all
  from rollbackChange_restores [OF assms(2), of fs now sessionId reason] assms(3-5) c
  show ?thesis by simp
qed

theorem C1_rollback_restores_backup_witness:
  "readFile demo_fs ''/srv/app/config.json'' = Inr ''{}''
   \<and> readFile demo_fs_applied ''/srv/app/config.json''
       = Inr (demo_changed_content ''pool'' ''10'')
   \<and> readFile (snd (rollbackChange demo_engine demo_fs_applied 20 ''tune_'' ''backup_''
                      ''Memory usage increased significantly''))
         ''/srv/app/config.json'' = Inr ''{}''"
proof -
  obtain this1 fs1 where cb:
    "createBackup demo_json (newEngine defaultConfig ''/srv/app'') demo_fs (demo_stamp 0)
       ''/srv/app/config.json'' ''Auto-tuning: opt_1'' = Inr (demo_backup, this1, fs1)"
    by (simp add: engine_defs demo_defs Let_def)
  have fnd: "List.find (\<lambda>b. backup_id b = backup_id demo_backup) (backups demo_engine)
               = Some demo_backup"
    by (simp add: demo_defs)
  have n1: "''/srv/app/config.json'' \<noteq> ''system''"
    and n2: "''/srv/app/config.json'' \<noteq> ''algorithmic_optimization''"
    by simp_all
  have w: "''/srv/app/config.json'' \<notin> set (unwritable demo_fs_applied)"
    by (simp add: demo_defs)
  have changed: "readFile demo_fs_applied ''/srv/app/config.json''
                  = Inr (demo_changed_content ''pool'' ''10'')"
    by (simp add: readFile_def demo_defs)
  from C1_rollback_restores_backup [OF cb fnd n1 n2 w, of 20 "''tune_''"
         "''Memory usage increased significantly''"] changed
  show ?thesis by (simp add: demo_backup_def)
qed

text \<open>The claim as it is written fails in the run \<open>demo_failed_restore\<close>: the session
  ends rolled back, its backup holds the original \<^verbatim>\<open>{}\<close>, and the file still holds the
  content that the change wrote.\<close>

theorem C1_rollback_write_failure_counterexample:
  "map status (completedSessions (fst demo_failed_restore)) = [ROLLED_BACK]
   \<and> map session_configFile (completedSessions (fst demo_failed_restore))
       = [''/srv/app/config.json'']
   \<and> map backup_configFile (backups (fst demo_failed_restore)) = [''/srv/app/config.json'']
   \<and> map originalContent (backups (fst demo_failed_restore)) = [''{}'']
   \<and> readFile (snd demo_failed_restore) ''/srv/app/config.json''
       = Inr (demo_changed_content ''pool'' ''10'')
   \<and> demo_changed_content ''pool'' ''10'' \<noteq> ''{}''"
  by (simp add: engine_defs demo_defs Let_def suffix_def)

subsection \<open>Sessions\<close>

lemma rollbackChange_session:
  "map_of (activeSessions this) sessionId = Some s \<Longrightarrow>
     map_of (activeSessions (fst (rollbackChange this fs now sessionId backupId reason))) sessionId
       = Some (s \<lparr> status := ROLLED_BACK, rollbackReason := Some reason, endTime := Some now \<rparr>)"
  by (auto simp: rollbackChange_def Let_def AList.update_conv' split: option.splits sum.splits)

lemma rollbackChange_other:
  "map_of (activeSessions this) k = None \<Longrightarrow>
     map_of (activeSessions (fst (rollbackChange this fs now sessionId backupId reason))) k = None"
  by (auto simp: rollbackChange_def Let_def AList.update_conv' split: option.splits sum.splits)

lemma finalizeWith_keep:
  assumes "recommendation (validatePerformanceChange pre post) = Keep"
      and "isValid (validatePerformanceChange pre post)"
  shows "completedSessions (fst (finalizeWith this fs now sessionId backupId session pre post))
           = completedSessions this
               @ [session \<lparr> postChangeMetrics := Some post, status := SUCCESSFUL,
                     improvementMeasured := Some (improvementPercent (validatePerformanceChange pre post)),
                     endTime := Some now \<rparr>]
       \<and> activeSessions (fst (finalizeWith this fs now sessionId backupId session pre post))
           = AList.delete sessionId (activeSessions this)"
  using assms by (simp add: finalizeWith_def Let_def AList.delete_update_same)

lemma finalizeWith_rollback:
  assumes "\<not> (recommendation (validatePerformanceChange pre post) = Keep
              \<and> isValid (validatePerformanceChange pre post))"
  shows "completedSessions (fst (finalizeWith this fs now sessionId backupId session pre post))
           = completedSessions this
               @ [session \<lparr> postChangeMetrics := Some post, status := ROLLED_BACK,
                     rollbackReason := Some (join ''; '' (issues (validatePerformanceChange pre post))),
                     endTime := Some now \<rparr>]
       \<and> map_of (activeSessions (fst (finalizeWith this fs now sessionId backupId session pre post)))
           sessionId = None"
proof -
  let ?this1 = "this \<lparr> activeSessions := AList.update sessionId
                  (session \<lparr> postChangeMetrics := Some post \<rparr>) (activeSessions this) \<rparr>"
  let ?reason = "join ''; '' (issues (validatePerformanceChange pre post))"
  let ?r = "rollbackChange ?this1 fs now sessionId backupId ?reason"
  have m: "map_of (activeSessions ?this1) sessionId = Some (session \<lparr> postChangeMetrics := Some post \<rparr>)"
    by (simp add: AList.update_conv')
  from rollbackChange_session [OF m, of fs now backupId ?reason]
  have s: "map_of (activeSessions (fst ?r)) sessionId
             = Some (session \<lparr> postChangeMetrics := Some post, status := ROLLED_BACK,
                     rollbackReason := Some ?reason, endTime := Some now \<rparr>)"
    by simp
  from rollbackChange_frame [of ?this1 fs now sessionId backupId ?reason]
  have c: "completedSessions (fst ?r) = completedSessions this" by simp
  show ?thesis
    using assms s c
    by (auto simp: finalizeWith_def Let_def AList.delete_conv' split: prod.splits)
qed

lemma validatePerformanceChange_improvement:
  "improvementPercent (validatePerformanceChange pre post)
     = 0.4 * (avgCpu pre - avgCpu post) + 0.4 * (avgMemory pre - avgMemory post)
       + 20 * (stability post - stability pre)"
  by (simp add: validatePerformanceChange_def Let_def algebra_simps)

lemma validatePerformanceChange_isValid:
  "isValid (validatePerformanceChange pre post) \<longleftrightarrow>
     improvementPercent (validatePerformanceChange pre post) > 0
     \<and> avgCpu post < 90 \<and> avgMemory post < 95"
  by (simp add: validatePerformanceChange_def Let_def)

lemma validatePerformanceChange_recommendation:
  "recommendation (validatePerformanceChange pre post) = Keep \<longleftrightarrow>
     isValid (validatePerformanceChange pre post)
     \<and> improvementPercent (validatePerformanceChange pre post) > 2"
  by (simp add: validatePerformanceChange_def Let_def)

lemma validatePerformanceChange_issues:
  "issues (validatePerformanceChange pre post)
     = (if avgCpu post > avgCpu pre * 1.1 then [cpu_issue] else [])
       @ (if avgMemory post > avgMemory pre * 1.1 then [memory_issue] else [])
       @ (if stability post < stability pre * 0.9 then [stability_issue] else [])"
  by (simp add: validatePerformanceChange_def Let_def)

lemma validatePerformanceChange_fields:
  "improvementPercent (validatePerformanceChange pre post)
     = 0.4 * (avgCpu pre - avgCpu post) + 0.4 * (avgMemory pre - avgMemory post)
       + 20 * (stability post - stability pre)
   \<and> (isValid (validatePerformanceChange pre post) \<longleftrightarrow>
        improvementPercent (validatePerformanceChange pre post) > 0
        \<and> avgCpu post < 90 \<and> avgMemory post < 95)
   \<and> (recommendation (validatePerformanceChange pre post) = Keep \<longleftrightarrow>
        isValid (validatePerformanceChange pre post)
        \<and> improvementPercent (validatePerformanceChange pre post) > 2)
   \<and> issues (validatePerformanceChange pre post)
       = (if avgCpu post > avgCpu pre * 1.1 then [cpu_issue] else [])
         @ (if avgMemory post > avgMemory pre * 1.1 then [memory_issue] else [])
         @ (if stability post < stability pre * 0.9 then [stability_issue] else [])"
  using validatePerformanceChange_improvement [of pre post]
    validatePerformanceChange_isValid [of pre post]
    validatePerformanceChange_recommendation [of pre post]
    validatePerformanceChange_issues [of pre post]
  by blast

text \<open>
  Claim C3 (amended). For every session validation, with \<open>overallImprovement =
  0.4 * cpuImprovement + 0.4 * memoryImprovement + 20 * stabilityImprovement\<close>, the change
  is kept (the session becomes \<open>SUCCESSFUL\<close>) if and only if \<open>isValid\<close> holds and
  \<open>overallImprovement > 2\<close>; otherwise the change is rolled back, and the rollback reason
  is the list of all triggered issues among CPU increased by more than 10%, memory
  increased by more than 10%, stability dropped by more than 10%, in this order, joined
  by \<^verbatim>\<open>"; "\<close> (the empty string when none is triggered).
\<close>

theorem C3_keep_iff_valid_and_improved:
  assumes "map_of (activeSessions this) sessionId = Some session"
      and "preChangeMetrics session = Some pre"
  shows "let post = simulatePostChangeMetrics pre rnd;
             v = validatePerformanceChange pre post;
             this' = fst (validateAndFinalize this fs rnd now sessionId backupId)
         in improvementPercent v
              = 0.4 * (avgCpu pre - avgCpu post) + 0.4 * (avgMemory pre - avgMemory post)
                + 20 * (stability post - stability pre)
          \<and> (isValid v \<longleftrightarrow> improvementPercent v > 0 \<and> avgCpu post < 90 \<and> avgMemory post < 95)
          \<and> issues v
              = (if avgCpu post > avgCpu pre * 1.1 then [cpu_issue] else [])
                @ (if avgMemory post > avgMemory pre * 1.1 then [memory_issue] else [])
                @ (if stability post < stability pre * 0.9 then [stability_issue] else [])
          \<and> (\<exists>s. completedSessions this' = completedSessions this @ [s]
                \<and> (status s = SUCCESSFUL \<longleftrightarrow> isValid v \<and> improvementPercent v > 2)
                \<and> (status s = SUCCESSFUL \<or> status s = ROLLED_BACK)
                \<and> (status s = SUCCESSFUL \<longrightarrow> improvementMeasured s = Some (improvementPercent v))
                \<and> (status s = ROLLED_BACK \<longrightarrow> rollbackReason s = Some (join ''; '' (issues v))))"
proof -
  define post where "post = simulatePostChangeMetrics pre rnd"
  define v where "v = validatePerformanceChange pre post"
  define this' where "this' = fst (validateAndFinalize this fs rnd now sessionId backupId)"
  have this'_eq: "this' = fst (finalizeWith this fs now sessionId backupId session pre post)"
    using assms by (simp add: this'_def validateAndFinalize_def post_def)
  note f = validatePerformanceChange_fields [of pre post, folded v_def]
  have ex: "\<exists>s. completedSessions this' = completedSessions this @ [s]
                \<and> (status s = SUCCESSFUL \<longleftrightarrow> isValid v \<and> improvementPercent v > 2)
                \<and> (status s = SUCCESSFUL \<or> status s = ROLLED_BACK)
                \<and> (status s = SUCCESSFUL \<longrightarrow> improvementMeasured s = Some (improvementPercent v))
                \<and> (status s = ROLLED_BACK \<longrightarrow> rollbackReason s = Some (join ''; '' (issues v)))"
  proof (cases "recommendation v = Keep \<and> isValid v")
    case True
    with finalizeWith_keep [of pre post this fs now sessionId backupId session] f
    show ?thesis unfolding this'_eq v_def by auto
  next
    case False
    with finalizeWith_rollback [of pre post this fs now sessionId backupId session] f
    show ?thesis unfolding this'_eq v_def by auto
  qed
  from f ex show ?thesis
    unfolding Let_def post_def [symmetric] v_def [symmetric] this'_def [symmetric] by blast
qed

theorem C3_keep_iff_valid_and_improved_witness:
  "map status (completedSessions (fst (validateAndFinalize demo_engine demo_fs_applied
        (0, 0.9, 0) 20 ''tune_'' ''backup_''))) = [ROLLED_BACK]
   \<and> map rollbackReason (completedSessions (fst (validateAndFinalize demo_engine demo_fs_applied
        (0, 0.9, 0) 20 ''tune_'' ''backup_''))) = [Some ''Memory usage increased significantly'']
   \<and> map status (completedSessions (fst (validateAndFinalize demo_engine demo_fs_applied
        (0, 0, 0) 20 ''tune_'' ''backup_''))) = [SUCCESSFUL]
   \<and> map improvementMeasured (completedSessions (fst (validateAndFinalize demo_engine
        demo_fs_applied (0, 0, 0) 20 ''tune_'' ''backup_''))) = [Some (28 / 5)]"
proof -
  have h1: "map_of (activeSessions demo_engine) ''tune_'' = Some demo_session"
    by (simp add: demo_engine_def)
  have h2: "preChangeMetrics demo_session = Some \<lparr> avgCpu = 50, avgMemory = 60, stability = 1 \<rparr>"
    by (simp add: demo_session_def)
  note rolled = C3_keep_iff_valid_and_improved [OF h1 h2, of "(0, 0.9, 0)" demo_fs_applied 20
                  "''backup_''"]
  note kept = C3_keep_iff_valid_and_improved [OF h1 h2, of "(0, 0, 0)" demo_fs_applied 20
                "''backup_''"]
  have ev: "map status (completedSessions (fst (validateAndFinalize demo_engine demo_fs_applied
        (0, 0.9, 0) 20 ''tune_'' ''backup_''))) = [ROLLED_BACK]
   \<and> map rollbackReason (completedSessions (fst (validateAndFinalize demo_engine demo_fs_applied
        (0, 0.9, 0) 20 ''tune_'' ''backup_''))) = [Some ''Memory usage increased significantly'']
   \<and> map status (completedSessions (fst (validateAndFinalize demo_engine demo_fs_applied
        (0, 0, 0) 20 ''tune_'' ''backup_''))) = [SUCCESSFUL]
   \<and> map improvementMeasured (completedSessions (fst (validateAndFinalize demo_engine
        demo_fs_applied (0, 0, 0) 20 ''tune_'' ''backup_''))) = [Some (28 / 5)]"
    by (simp add: engine_defs demo_defs Let_def)
  from rolled kept ev show ?thesis by blast
qed

text \<open>The claim as it is written names the first triggered issue as the reason. In the
  run \<open>demo_two_issues\<close> the session starts from the averages \<open>-50\<close> (CPU) and 60
  (memory); the measurement returns 0 and 67.2, so CPU and memory are both more than 10%
  above the pre-change metrics, and the reason recorded is both issues, not the first.\<close>

theorem C3_reason_joins_all_issues_counterexample:
  "map preChangeMetrics (completedSessions (fst demo_two_issues))
     = [Some \<lparr> avgCpu = - 50, avgMemory = 60, stability = 1 \<rparr>]
   \<and> map postChangeMetrics (completedSessions (fst demo_two_issues))
     = [Some \<lparr> avgCpu = 0, avgMemory = 336 / 5, stability = 1 \<rparr>]
   \<and> issues (validatePerformanceChange \<lparr> avgCpu = - 50, avgMemory = 60, stability = 1 \<rparr>
               \<lparr> avgCpu = 0, avgMemory = 336 / 5, stability = 1 \<rparr>)
     = [''CPU usage increased significantly'', ''Memory usage increased significantly'']
   \<and> map status (completedSessions (fst demo_two_issues)) = [ROLLED_BACK]
   \<and> map rollbackReason (completedSessions (fst demo_two_issues))
     = [Some ''CPU usage increased significantly; Memory usage increased significantly'']
   \<and> map rollbackReason (completedSessions (fst demo_two_issues))
     \<noteq> [Some ''CPU usage increased significantly'']"
  by (simp add: engine_defs demo_defs Let_def suffix_def)

subsection \<open>No way back into the active set\<close>

lemma applySuggestion_other:
  assumes "map_of (activeSessions this) k = None" and "new_sessionId stamp \<noteq> k"
  shows "map_of (activeSessions (fst (applySuggestion json this fs stamp suggestion currentMetrics))) k
           = None"
proof (cases "createBackup json this fs stamp (configFile suggestion)
                (''Auto-tuning: '' @ suggestion_id suggestion)")
  case (Inl e)
  with assms show ?thesis
    by (simp add: applySuggestion_def Let_def AList.delete_conv')
next
  case (Inr r)
  obtain backup this1 fs1 where r: "r = (backup, this1, fs1)" by (cases r) auto
  from createBackup_frame [OF Inr [unfolded r]]
  have "activeSessions this1 = activeSessions this" by simp
  with Inr r assms show ?thesis
    by (simp add: applySuggestion_def Let_def AList.update_conv')
qed

lemma applySuggestion_completed:
  "completedSessions (fst (applySuggestion json this fs stamp suggestion currentMetrics))
     = completedSessions this"
  by (auto simp: applySuggestion_def Let_def split: sum.splits prod.splits
        dest: createBackup_frame)

lemma applyEach_other:
  assumes "map_of (activeSessions (fst st)) k = None"
      and "k \<notin> range (\<lambda>i. new_sessionId (stamp i))"
  shows "map_of (activeSessions (fst (applyEach json stamp i currentMetrics xs st))) k = None"
  using assms(1)
proof (induction xs arbitrary: i st)
  case Nil
  then show ?case by simp
next
  case (Cons x xs)
  have "new_sessionId (stamp i) \<noteq> k" using assms(2) by auto
  from applySuggestion_other [OF Cons.prems this]
  show ?case by (simp add: Cons.IH)
qed

lemma applyEach_completed:
  "completedSessions (fst (applyEach json stamp i currentMetrics xs st))
     = completedSessions (fst st)"
  by (induction xs arbitrary: i st) (simp_all add: applySuggestion_completed)

lemma finalizeWith_other:
  assumes "map_of (activeSessions this) k = None"
  shows "map_of (activeSessions (fst (finalizeWith this fs now sessionId backupId session pre post))) k
           = None"
proof (cases "k = sessionId")
  case True
  then show ?thesis
    by (auto simp: finalizeWith_def Let_def AList.delete_conv' split: prod.splits)
next
  case False
  let ?this1 = "this \<lparr> activeSessions := AList.update sessionId
                  (session \<lparr> postChangeMetrics := Some post \<rparr>) (activeSessions this) \<rparr>"
  have m: "map_of (activeSessions ?this1) k = None"
    using assms False by (simp add: AList.update_conv')
  let ?r = "rollbackChange ?this1 fs now sessionId backupId
              (join ''; '' (issues (validatePerformanceChange pre post)))"
  from rollbackChange_other [OF m]
  have r: "map_of (activeSessions (fst ?r)) k = None" .
  show ?thesis
    using m r False
    by (cases ?r) (auto simp: finalizeWith_def Let_def AList.delete_conv')
qed

lemma finalizeWith_completed_prefix:
  "prefix (completedSessions this)
     (completedSessions (fst (finalizeWith this fs now sessionId backupId session pre post)))"
  using finalizeWith_keep [of pre post this fs now sessionId backupId session]
    finalizeWith_rollback [of pre post this fs now sessionId backupId session]
  by (cases "recommendation (validatePerformanceChange pre post) = Keep
              \<and> isValid (validatePerformanceChange pre post)") auto

lemma validateAndFinalize_other:
  "map_of (activeSessions this) k = None \<Longrightarrow>
     map_of (activeSessions (fst (validateAndFinalize this fs rnd now sessionId backupId))) k = None"
  by (auto simp: validateAndFinalize_def rollbackChange_other finalizeWith_other
        split: option.splits)

lemma validateAndFinalize_completed_prefix:
  "prefix (completedSessions this)
     (completedSessions (fst (validateAndFinalize this fs rnd now sessionId backupId)))"
  using rollbackChange_frame [of this fs now sessionId backupId "''Validation error''"]
  by (auto simp: validateAndFinalize_def finalizeWith_completed_prefix split: option.splits)

lemma step_other:
  assumes "map_of (activeSessions (fst st)) k = None" and "k \<notin> issued e"
  shows "map_of (activeSessions (fst (step json e st))) k = None
       \<and> prefix (completedSessions (fst st)) (completedSessions (fst (step json e st)))"
proof (cases st)
  case (Pair this fs)
  show ?thesis
  proof (cases e)
    case (ProcessSuggestions stamp sugs currentMetrics)
    with Pair assms show ?thesis
      using applyEach_other [of "(this, fs)" k stamp json 0 currentMetrics "toProcess this fs sugs"]
      by (simp add: processSuggestions_def applyEach_completed)
  next
    case (ValidationTimer rnd now sessionId backupId)
    with Pair assms show ?thesis
      by (simp add: validateAndFinalize_other validateAndFinalize_completed_prefix)
  next
    case (CleanupOldBackups now)
    with Pair assms show ?thesis by (simp add: cleanupOldBackups_frame)
  next
    case (External change)
    with Pair assms show ?thesis by simp
  qed
qed

lemma run_other:
  "map_of (activeSessions (fst st)) k = None \<Longrightarrow> k \<notin> \<Union> (issued ` set es) \<Longrightarrow>
     map_of (activeSessions (fst (run json es st))) k = None
     \<and> prefix (completedSessions (fst st)) (completedSessions (fst (run json es st)))"
proof (induction es arbitrary: st)
  case Nil
  then show ?case by simp
next
  case (Cons e es)
  from Cons.prems have e: "k \<notin> issued e" and es: "k \<notin> \<Union> (issued ` set es)" by auto
  from step_other [OF Cons.prems(1) e, of json]
  have s: "map_of (activeSessions (fst (step json e st))) k = None"
    "prefix (completedSessions (fst st)) (completedSessions (fst (step json e st)))" by simp_all
  from Cons.IH [OF s(1) es] s(2) show ?case
    by (auto intro: prefix_order.trans)
qed

text \<open>
  Claim C5. A session whose validation step raises an exception is rolled back with the
  reason \<^verbatim>\<open>Validation error\<close> and does not remain in \<open>TESTING\<close>. A session whose
  validation completes, with keep or with rollback, is removed from the active sessions
  and appended to the completed list, and it does not enter the active sessions again:
  in no later run of the engine that hands out other session identifiers is it active,
  and the completed list only grows.
\<close>

theorem C5_validation_outcomes:
  assumes "map_of (activeSessions this) sessionId = Some session"
  shows "(preChangeMetrics session = None \<longrightarrow>
            (\<exists>s. map_of (activeSessions (fst (validateAndFinalize this fs rnd now sessionId backupId)))
                    sessionId = Some s
                 \<and> status s = ROLLED_BACK \<and> rollbackReason s = Some ''Validation error''
                 \<and> status s \<noteq> TESTING))
       \<and> (preChangeMetrics session \<noteq> None \<longrightarrow>
            (let st' = validateAndFinalize this fs rnd now sessionId backupId
             in map_of (activeSessions (fst st')) sessionId = None
                \<and> (\<exists>s. completedSessions (fst st') = completedSessions this @ [s]
                       \<and> session_id s = session_id session
                       \<and> (status s = SUCCESSFUL \<or> status s = ROLLED_BACK))
                \<and> (\<forall>es. sessionId \<notin> \<Union> (issued ` set es) \<longrightarrow>
                       map_of (activeSessions (fst (run json es st'))) sessionId = None
                       \<and> prefix (completedSessions (fst st'))
                           (completedSessions (fst (run json es st'))))))"
proof (intro conjI impI)
  assume n: "preChangeMetrics session = None"
  from rollbackChange_session [OF assms, of fs now backupId "''Validation error''"] n assms
  show "\<exists>s. map_of (activeSessions (fst (validateAndFinalize this fs rnd now sessionId backupId)))
                    sessionId = Some s
                 \<and> status s = ROLLED_BACK \<and> rollbackReason s = Some ''Validation error''
                 \<and> status s \<noteq> TESTING"
    by (simp add: validateAndFinalize_def)
next
  assume "preChangeMetrics session \<noteq> None"
  then obtain pre where pre: "preChangeMetrics session = Some pre" by auto
  define post where "post = simulatePostChangeMetrics pre rnd"
  define st' where "st' = validateAndFinalize this fs rnd now sessionId backupId"
  have st'_eq: "st' = finalizeWith this fs now sessionId backupId session pre post"
    using assms pre by (simp add: st'_def validateAndFinalize_def post_def)
  have gone: "map_of (activeSessions (fst st')) sessionId = None"
    and moved: "\<exists>s. completedSessions (fst st') = completedSessions this @ [s]
                       \<and> session_id s = session_id session
                       \<and> (status s = SUCCESSFUL \<or> status s = ROLLED_BACK)"
  proof -
    show "map_of (activeSessions (fst st')) sessionId = None"
      using finalizeWith_keep [of pre post this fs now sessionId backupId session]
        finalizeWith_rollback [of pre post this fs now sessionId backupId session]
      unfolding st'_eq
      by (cases "recommendation (validatePerformanceChange pre post) = Keep
              \<and> isValid (validatePerformanceChange pre post)") (auto simp: AList.delete_conv')
    show "\<exists>s. completedSessions (fst st') = completedSessions this @ [s]
                       \<and> session_id s = session_id session
                       \<and> (status s = SUCCESSFUL \<or> status s = ROLLED_BACK)"
      using finalizeWith_keep [of pre post this fs now sessionId backupId session]
        finalizeWith_rollback [of pre post this fs now sessionId backupId session]
      unfolding st'_eq
      by (cases "recommendation (validatePerformanceChange pre post) = Keep
              \<and> isValid (validatePerformanceChange pre post)") auto
  qed
  have later: "\<forall>es. sessionId \<notin> \<Union> (issued ` set es) \<longrightarrow>
                       map_of (activeSessions (fst (run json es st'))) sessionId = None
                       \<and> prefix (completedSessions (fst st'))
                           (completedSessions (fst (run json es st')))"
    using run_other [OF gone] by blast
  from gone moved later
  show "let st' = validateAndFinalize this fs rnd now sessionId backupId
             in map_of (activeSessions (fst st')) sessionId = None
                \<and> (\<exists>s. completedSessions (fst st') = completedSessions this @ [s]
                       \<and> session_id s = session_id session
                       \<and> (status s = SUCCESSFUL \<or> status s = ROLLED_BACK))
                \<and> (\<forall>es. sessionId \<notin> \<Union> (issued ` set es) \<longrightarrow>
                       map_of (activeSessions (fst (run json es st'))) sessionId = None
                       \<and> prefix (completedSessions (fst st'))
                           (completedSessions (fst (run json es st'))))"
    unfolding Let_def st'_def [symmetric] by blast
qed

theorem C5_validation_outcomes_witness:
  "map (status \<circ> snd) (activeSessions (fst (validateAndFinalize
        (demo_engine \<lparr> activeSessions := [(''tune_'', demo_session \<lparr> preChangeMetrics := None \<rparr>)] \<rparr>)
        demo_fs_applied (0, 0, 0) 20 ''tune_'' ''backup_''))) = [ROLLED_BACK]
   \<and> map (rollbackReason \<circ> snd) (activeSessions (fst (validateAndFinalize
        (demo_engine \<lparr> activeSessions := [(''tune_'', demo_session \<lparr> preChangeMetrics := None \<rparr>)] \<rparr>)
        demo_fs_applied (0, 0, 0) 20 ''tune_'' ''backup_''))) = [Some ''Validation error'']
   \<and> activeSessions (fst (validateAndFinalize demo_engine demo_fs_applied (0, 0, 0) 20
        ''tune_'' ''backup_'')) = []
   \<and> map session_id (completedSessions (fst (validateAndFinalize demo_engine demo_fs_applied
        (0, 0, 0) 20 ''tune_'' ''backup_''))) = [''tune_'']"
proof -
  have h0: "map_of (activeSessions
              (demo_engine \<lparr> activeSessions := [(''tune_'', demo_session \<lparr> preChangeMetrics := None \<rparr>)] \<rparr>))
              ''tune_'' = Some (demo_session \<lparr> preChangeMetrics := None \<rparr>)"
    by simp
  have h1: "map_of (activeSessions demo_engine) ''tune_'' = Some demo_session"
    by (simp add: demo_engine_def)
  note raised = C5_validation_outcomes [OF h0, of demo_fs_applied "(0, 0, 0)" 20 "''backup_''"
                  demo_json]
  note completed = C5_validation_outcomes [OF h1, of demo_fs_applied "(0, 0, 0)" 20 "''backup_''"
                     demo_json]
  have ev: "map (status \<circ> snd) (activeSessions (fst (validateAndFinalize
        (demo_engine \<lparr> activeSessions := [(''tune_'', demo_session \<lparr> preChangeMetrics := None \<rparr>)] \<rparr>)
        demo_fs_applied (0, 0, 0) 20 ''tune_'' ''backup_''))) = [ROLLED_BACK]
   \<and> map (rollbackReason \<circ> snd) (activeSessions (fst (validateAndFinalize
        (demo_engine \<lparr> activeSessions := [(''tune_'', demo_session \<lparr> preChangeMetrics := None \<rparr>)] \<rparr>)
        demo_fs_applied (0, 0, 0) 20 ''tune_'' ''backup_''))) = [Some ''Validation error'']
   \<and> activeSessions (fst (validateAndFinalize demo_engine demo_fs_applied (0, 0, 0) 20
        ''tune_'' ''backup_'')) = []
   \<and> map session_id (completedSessions (fst (validateAndFinalize demo_engine demo_fs_applied
        (0, 0, 0) 20 ''tune_'' ''backup_''))) = [''tune_'']"
    by (simp add: engine_defs demo_defs Let_def)
  from raised completed ev show ?thesis by blast
qed

subsection \<open>Eligibility of the virtual suggestions\<close>

lemma filterEligibleSuggestions_needs_file:
  "map_of (files fs) (configFile s) = None \<Longrightarrow> s \<notin> set (filterEligibleSuggestions this fs sugs)"
  by (simp add: filterEligibleSuggestions_def isFileModifiable_def existsSync_def)

text \<open>
  Claim C4. A suggestion whose \<open>configFile\<close> is the sentinel \<^verbatim>\<open>system\<close> or
  \<^verbatim>\<open>algorithmic_optimization\<close> is eligible when its risk rank is within \<open>riskThreshold\<close>
  and its confidence is at least 0.7: the check that the file exists and is writable
  does not reject it. The filter has no case for the sentinels: the suggestion that
  \<open>applyAlgorithmicOptimizations\<close> generates at 90% memory (risk low, confidence 0.75)
  is rejected on the default configuration, because no file of that name exists.
\<close>

theorem C4_sentinel_rejected_by_file_check:
  "map configFile (applyAlgorithmicOptimizations (\<lambda>x d. ''?'') demo_opt_stamp 0 []
        \<lparr> cpuUsage = 10, memoryUsage = 90 \<rparr>) = [''algorithmic_optimization'']
   \<and> map riskLevel (applyAlgorithmicOptimizations (\<lambda>x d. ''?'') demo_opt_stamp 0 []
        \<lparr> cpuUsage = 10, memoryUsage = 90 \<rparr>) = [''low'']
   \<and> map confidence (applyAlgorithmicOptimizations (\<lambda>x d. ''?'') demo_opt_stamp 0 []
        \<lparr> cpuUsage = 10, memoryUsage = 90 \<rparr>) = [0.75]
   \<and> isWithinRiskThreshold (newEngine defaultConfig ''/srv/app'') ''low''
   \<and> filterEligibleSuggestions (newEngine defaultConfig ''/srv/app'') demo_fs
        (applyAlgorithmicOptimizations (\<lambda>x d. ''?'') demo_opt_stamp 0 []
           \<lparr> cpuUsage = 10, memoryUsage = 90 \<rparr>) = []"
  by (simp add: applyAlgorithmicOptimizations_def Let_def engine_defs demo_defs)

subsection \<open>Statistics\<close>

text \<open>
  Claim C10. Whenever the list of completed sessions is empty, \<open>getTuningStats\<close> returns
  \<open>successRate = 0\<close> and \<open>avgImprovement = 0\<close>: both divisions are guarded and are not
  performed with a zero denominator.
\<close>

theorem C10_stats_of_no_sessions:
  "completedSessions this = [] \<Longrightarrow>
     successRate (getTuningStats this) = 0 \<and> avgImprovement (getTuningStats this) = 0"
  by (simp add: getTuningStats_def getSuccessfulTunings_def Let_def)

theorem C10_stats_of_no_sessions_witness:
  "completedSessions (newEngine defaultConfig ''/srv/app'') = []
   \<and> successRate (getTuningStats (newEngine defaultConfig ''/srv/app'')) = 0
   \<and> avgImprovement (getTuningStats (newEngine defaultConfig ''/srv/app'')) = 0"
  using C10_stats_of_no_sessions [of "newEngine defaultConfig ''/srv/app''"]
  by (simp add: newEngine_def)

end
